theory Spec2Isabelle
  imports Complex_Main "HOL-Library.Multiset" "HOL-Library.Product_Lexorder"
begin

section \<open>Floats, values and exceptions\<close>

text \<open>
  A Python float is a binary64 value: a finite number (a rational; the two zeros are
  not told apart), an infinity or NaN. The comparisons are those of the language: every
  comparison with NaN is false.
\<close>

datatype pyfloat = Finite rat | PosInf | NegInf | NaN

fun fl_lt :: "pyfloat \<Rightarrow> pyfloat \<Rightarrow> bool" where
  "fl_lt (Finite a) (Finite b) = (a < b)"
| "fl_lt (Finite a) PosInf = True"
| "fl_lt NegInf (Finite b) = True"
| "fl_lt NegInf PosInf = True"
| "fl_lt _ _ = False"

definition fl_eq :: "pyfloat \<Rightarrow> pyfloat \<Rightarrow> bool" where
  "fl_eq a b = (a \<noteq> NaN \<and> b \<noteq> NaN \<and> a = b)"

definition fl_ge :: "pyfloat \<Rightarrow> pyfloat \<Rightarrow> bool" where
  "fl_ge a b = (fl_lt b a \<or> fl_eq a b)"

text \<open>The place of a float that is not NaN on the line from \<open>-inf\<close> to \<open>+inf\<close>.\<close>

fun fl_key :: "pyfloat \<Rightarrow> int \<times> rat" where
  "fl_key NegInf = (- 1, 0)"
| "fl_key (Finite a) = (0, a)"
| "fl_key PosInf = (1, 0)"
| "fl_key NaN = (2, 0)"

text \<open>
  The service works on decoded JSON. A value that reaches \<^verbatim>\<open>float(...)\<close> is a
  string, an integer (of any size), a float, a boolean, \<^verbatim>\<open>None\<close>, or a list or
  object (\<open>JOther\<close>).
\<close>

datatype json = JNull | JBool bool | JInt int | JFloat pyfloat | JStr string | JOther

type_synonym dict = "string \<rightharpoonup> json"

text \<open>
  The exceptions the modelled code can raise. \<open>ApiRequestFailed st\<close> is
  \<^verbatim>\<open>Exception(f"API request failed: {response.status}")\<close>; \<open>ContentTypeError\<close> is the
  one \<^verbatim>\<open>response.json()\<close> raises on a body that is not announced as JSON (a body that
  does not decode raises a subclass of \<^verbatim>\<open>ValueError\<close>); \<open>ValidationError\<close> is the one
  pydantic raises when a response model rejects a field.
\<close>

datatype py_exc =
  ValueError | KeyError | TypeError | IndexError | ZeroDivisionError | OverflowError
  | ContentTypeError | ApiRequestFailed int | ValidationError

definition ebind :: "'e + 'a \<Rightarrow> ('a \<Rightarrow> 'e + 'b) \<Rightarrow> 'e + 'b" where
  "ebind m f = (case m of Inl e \<Rightarrow> Inl e | Inr x \<Rightarrow> f x)"

text \<open>
  What the code takes from the language and is not its own, as parameters: the
  conversions \<^verbatim>\<open>float(s)\<close> of a string (\<open>None\<close> is \<^verbatim>\<open>ValueError\<close>) and
  \<^verbatim>\<open>float(n)\<close> of an integer (\<open>None\<close> is \<^verbatim>\<open>OverflowError\<close>), the binary64
  product and quotient with their rounding, \<^verbatim>\<open>sum\<close> over a list of floats, and
  the order in which \<^verbatim>\<open>list.sort\<close> leaves a list whose keys \<^verbatim>\<open><\<close> does not order
  (keys with a NaN), as the positions of the input in the output.
\<close>

record python =
  float_of_str :: "string \<Rightarrow> pyfloat option"
  float_of_int :: "int \<Rightarrow> pyfloat option"
  fmul :: "pyfloat \<Rightarrow> pyfloat \<Rightarrow> pyfloat"
  fdiv :: "pyfloat \<Rightarrow> pyfloat \<Rightarrow> pyfloat"
  fsum :: "pyfloat list \<Rightarrow> pyfloat"
  sort_with_nan :: "pyfloat list \<Rightarrow> nat list"

text \<open>\<^verbatim>\<open>float(v)\<close>\<close>

definition py_float :: "python \<Rightarrow> json \<Rightarrow> py_exc + pyfloat" where
  "py_float py v =
     (case v of
        JStr s \<Rightarrow> (case float_of_str py s of None \<Rightarrow> Inl ValueError | Some r \<Rightarrow> Inr r)
      | JInt n \<Rightarrow> (case float_of_int py n of None \<Rightarrow> Inl OverflowError | Some r \<Rightarrow> Inr r)
      | JFloat r \<Rightarrow> Inr r
      | JBool b \<Rightarrow> Inr (Finite (if b then 1 else 0))
      | JNull \<Rightarrow> Inl TypeError
      | JOther \<Rightarrow> Inl TypeError)"

text \<open>\<^verbatim>\<open>d.get(k, default)\<close> and \<^verbatim>\<open>d[k]\<close>.\<close>

definition dict_get :: "dict \<Rightarrow> string \<Rightarrow> json \<Rightarrow> json" where
  "dict_get d k dflt = (case d k of None \<Rightarrow> dflt | Some v \<Rightarrow> v)"

definition subscript :: "dict \<Rightarrow> string \<Rightarrow> py_exc + json" where
  "subscript d k = (case d k of None \<Rightarrow> Inl KeyError | Some v \<Rightarrow> Inr v)"

text \<open>\<^verbatim>\<open>a / b\<close> on floats: a zero divisor raises.\<close>

definition py_truediv :: "python \<Rightarrow> pyfloat \<Rightarrow> pyfloat \<Rightarrow> py_exc + pyfloat" where
  "py_truediv py a b = (if b = Finite 0 then Inl ZeroDivisionError else Inr (fdiv py a b))"

section \<open>Market data client\<close>

text \<open>
  What one refresh run observes from outside.
  \<^item> \<open>meta_status\<close>, \<open>meta_body\<close>: the reply of the exchange to the bulk request.
    \<open>meta_body\<close> is what \<^verbatim>\<open>response.json()\<close>, \<^verbatim>\<open>data[0]["universe"]\<close> and
    \<^verbatim>\<open>data[1]\<close> make of the body: the two lists, typed as the annotation of
    \<^verbatim>\<open>fetch_meta_and_contexts\<close> gives them, or the exception that one of the three
    raises on a body that does not decode or has another shape.
  \<^item> \<open>funding_reply\<close>: the reply to a funding-history request, a function of the request
    payload: the status, and what \<^verbatim>\<open>response.json()\<close> makes of the body.
  \<^item> \<open>clock_end\<close>: the value of \<^verbatim>\<open>int(datetime.now(timezone.utc).timestamp() * 1000)\<close>;
    \<open>clock_start d\<close>: the value of
    \<^verbatim>\<open>int((datetime.now(timezone.utc) - timedelta(days=d)).timestamp() * 1000)\<close>;
    \<open>clock_update\<close>: the \<^verbatim>\<open>datetime.now\<close> of the update, in microseconds.
  Transport-level exceptions are outside the model, and \<open>days_back\<close> is taken within
  the range of \<^verbatim>\<open>timedelta\<close>.
\<close>

record env =
  meta_status :: int
  meta_body :: "py_exc + dict list \<times> dict list"
  funding_reply :: "dict \<Rightarrow> int \<times> (py_exc + dict list)"
  clock_end :: int
  clock_start :: "int \<Rightarrow> int"
  clock_update :: int

definition fetch_meta_and_contexts :: "env \<Rightarrow> py_exc + dict list \<times> dict list" where
  "fetch_meta_and_contexts w =
     (if meta_status w \<noteq> 200 then Inl (ApiRequestFailed (meta_status w))
      else ebind (meta_body w) (\<lambda>(universe, contexts). Inr (universe, contexts)))"

text \<open>The request payload of \<^verbatim>\<open>fetch_funding_history\<close>; \<^verbatim>\<open>if end_time:\<close> is truthiness.\<close>

definition funding_payload :: "json \<Rightarrow> int \<Rightarrow> int option \<Rightarrow> dict" where
  "funding_payload coin start_time end_time =
     (let payload = [''type'' \<mapsto> JStr ''fundingHistory'', ''coin'' \<mapsto> coin,
                     ''startTime'' \<mapsto> JInt start_time]
      in case end_time of
           None \<Rightarrow> payload
         | Some t \<Rightarrow> if t \<noteq> 0 then payload(''endTime'' \<mapsto> JInt t) else payload)"

definition fetch_funding_history ::
  "env \<Rightarrow> json \<Rightarrow> int \<Rightarrow> int option \<Rightarrow> py_exc + dict list" where
  "fetch_funding_history w coin start_time end_time =
     (let (status, body) = funding_reply w (funding_payload coin start_time end_time)
      in if status \<noteq> 200 then Inr [] else body)"

text \<open>\<^verbatim>\<open>[float(entry["fundingRate"]) for entry in funding_history]\<close>\<close>

fun funding_rates :: "python \<Rightarrow> dict list \<Rightarrow> py_exc + pyfloat list" where
  "funding_rates py [] = Inr []"
| "funding_rates py (entry # rest) =
     ebind (subscript entry ''fundingRate'') (\<lambda>v.
     ebind (py_float py v) (\<lambda>r.
     ebind (funding_rates py rest) (\<lambda>rs. Inr (r # rs))))"

text \<open>The divisor \<^verbatim>\<open>len(rates)\<close> is an integer, converted exactly.\<close>

definition calculate_average_funding_rate :: "python \<Rightarrow> dict list \<Rightarrow> py_exc + pyfloat" where
  "calculate_average_funding_rate py funding_history =
     (if funding_history = [] then Inr (Finite 0)
      else ebind (funding_rates py funding_history) (\<lambda>rates.
           if rates \<noteq> [] then py_truediv py (fsum py rates) (Finite (of_nat (length rates)))
           else Inr (Finite 0)))"

section \<open>Ranking\<close>

text \<open>The dictionary appended to \<^verbatim>\<open>eligible_coins\<close>, one field per key.\<close>

record ranked =
  coin :: json
  avg_funding_rate :: pyfloat
  avg_funding_rate_pct :: pyfloat
  annualized_funding_rate :: pyfloat
  annualized_funding_rate_pct :: pyfloat
  current_funding_rate :: pyfloat
  current_funding_rate_annualized :: pyfloat
  current_funding_rate_annualized_pct :: pyfloat
  total_7d_funding_pct :: pyfloat
  open_interest_usd :: pyfloat
  daily_volume_usd :: pyfloat
  mark_price :: pyfloat
  funding_data_points :: nat

text \<open>
  The body of the \<^verbatim>\<open>try\<close> block for one instrument. \<open>Inr None\<close> is
  \<^verbatim>\<open>continue\<close>, \<open>Inr (Some c)\<close> is the \<^verbatim>\<open>append\<close> of \<open>c\<close>, \<open>Inl e\<close> is
  an exception raised inside the block. The integer factors \<open>3\<close>, \<open>365\<close> and \<open>100\<close>
  convert exactly.
\<close>

definition try_body ::
  "python \<Rightarrow> env \<Rightarrow> pyfloat \<Rightarrow> pyfloat \<Rightarrow> int \<Rightarrow> int \<Rightarrow> json \<Rightarrow> dict
     \<Rightarrow> py_exc + ranked option" where
  "try_body py w min_open_interest min_daily_volume start_time end_time coin_name context =
     (let open_interest_str = dict_get context ''openInterest'' (JStr ''0'');
          mark_price_str = dict_get context ''markPx'' (JStr ''0'');
          daily_volume_str = dict_get context ''dayNtlVlm'' (JStr ''0'')
      in ebind (py_float py open_interest_str) (\<lambda>open_interest.
         ebind (py_float py mark_price_str) (\<lambda>mark_price'.
         ebind (py_float py daily_volume_str) (\<lambda>daily_volume.
         let open_interest_usd' = fmul py open_interest mark_price';
             daily_volume_usd' = daily_volume
         in if fl_lt open_interest_usd' min_open_interest
               \<or> fl_lt daily_volume_usd' min_daily_volume
            then Inr None
            else
              ebind (fetch_funding_history w coin_name start_time (Some end_time))
                (\<lambda>funding_history.
              if funding_history = [] then Inr None
              else
                ebind (calculate_average_funding_rate py funding_history) (\<lambda>avg.
                let annualized = fmul py (fmul py avg (Finite 3)) (Finite 365);
                    annualized_pct = fmul py annualized (Finite 100)
                in ebind (py_float py (dict_get context ''funding'' (JStr ''0''))) (\<lambda>cur.
                   let cur_annualized = fmul py (fmul py cur (Finite 3)) (Finite 365);
                       cur_annualized_pct = fmul py cur_annualized (Finite 100)
                   in ebind (funding_rates py funding_history) (\<lambda>rs.
                      let total_7d_funding = fsum py rs;
                          total_7d_funding_pct' = fmul py total_7d_funding (Finite 100)
                      in Inr (Some \<lparr>coin = coin_name,
                            avg_funding_rate = avg,
                            avg_funding_rate_pct = fmul py avg (Finite 100),
                            annualized_funding_rate = annualized,
                            annualized_funding_rate_pct = annualized_pct,
                            current_funding_rate = cur,
                            current_funding_rate_annualized = cur_annualized,
                            current_funding_rate_annualized_pct = cur_annualized_pct,
                            total_7d_funding_pct = total_7d_funding_pct',
                            open_interest_usd = open_interest_usd',
                            daily_volume_usd = daily_volume_usd',
                            mark_price = mark_price',
                            funding_data_points = length funding_history\<rparr>)))))))))"

text \<open>\<^verbatim>\<open>except (ValueError, KeyError, TypeError)\<close>\<close>

definition caught :: "py_exc \<Rightarrow> bool" where
  "caught e = (e = ValueError \<or> e = KeyError \<or> e = TypeError)"

text \<open>
  The body of the \<^verbatim>\<open>for\<close> loop at index \<open>i\<close>. The index test comes first;
  \<^verbatim>\<open>coin_meta["name"]\<close> is read before the \<^verbatim>\<open>try\<close>, so its \<^verbatim>\<open>KeyError\<close> is not
  caught.
\<close>

definition loop_body ::
  "python \<Rightarrow> env \<Rightarrow> pyfloat \<Rightarrow> pyfloat \<Rightarrow> int \<Rightarrow> int \<Rightarrow> dict list \<Rightarrow> nat \<Rightarrow> dict
     \<Rightarrow> py_exc + ranked option" where
  "loop_body py w min_open_interest min_daily_volume start_time end_time contexts i coin_meta =
     (if i \<ge> length contexts then Inr None
      else ebind (subscript coin_meta ''name'') (\<lambda>coin_name.
           let context = contexts ! i
           in case try_body py w min_open_interest min_daily_volume start_time end_time
                     coin_name context of
                Inl e \<Rightarrow> if caught e then Inr None else Inl e
              | Inr r \<Rightarrow> Inr r))"

text \<open>\<^verbatim>\<open>for i, coin_meta in enumerate(universe)\<close>, with \<open>acc\<close> the list built so far.\<close>

fun for_loop ::
  "(nat \<Rightarrow> dict \<Rightarrow> py_exc + ranked option) \<Rightarrow> nat \<Rightarrow> dict list \<Rightarrow> ranked list
     \<Rightarrow> py_exc + ranked list" where
  "for_loop body i [] acc = Inr acc"
| "for_loop body i (coin_meta # rest) acc =
     (case body i coin_meta of
        Inl e \<Rightarrow> Inl e
      | Inr None \<Rightarrow> for_loop body (Suc i) rest acc
      | Inr (Some c) \<Rightarrow> for_loop body (Suc i) rest (acc @ [c]))"

text \<open>
  \<^verbatim>\<open>xs.sort(key=k, reverse=True)\<close>. On keys without NaN, \<^verbatim>\<open><\<close> is a total preorder
  and the result is the one a stable sort can give: the reversed list sorted stably and
  reversed again, which keeps equal keys in their original order. On keys with a NaN
  the result is the rearrangement the language makes of them, given by the positions
  of the input (all of them below its length) in the order of the output.
\<close>

definition sort_reverse :: "python \<Rightarrow> ('a \<Rightarrow> pyfloat) \<Rightarrow> 'a list \<Rightarrow> 'a list" where
  "sort_reverse py k xs =
     (if \<forall>x \<in> set xs. k x \<noteq> NaN then rev (sort_key (\<lambda>x. fl_key (k x)) (rev xs))
      else map (\<lambda>i. xs ! i) (filter (\<lambda>i. i < length xs) (sort_with_nan py (map k xs))))"

text \<open>\<^verbatim>\<open>xs[:n]\<close>: a negative \<open>n\<close> counts from the end.\<close>

definition slice_to :: "int \<Rightarrow> 'a list \<Rightarrow> 'a list" where
  "slice_to n xs = (if 0 \<le> n then take (nat n) xs else take (length xs - nat (- n)) xs)"

definition get_top_funding_rate_coins ::
  "python \<Rightarrow> env \<Rightarrow> pyfloat \<Rightarrow> pyfloat \<Rightarrow> int \<Rightarrow> int \<Rightarrow> py_exc + ranked list" where
  "get_top_funding_rate_coins py w min_open_interest min_daily_volume days_back top_n =
     ebind (fetch_meta_and_contexts w) (\<lambda>(universe, contexts).
     let end_time = clock_end w;
         start_time = clock_start w days_back
     in ebind (for_loop (loop_body py w min_open_interest min_daily_volume start_time end_time
                           contexts) 0 universe []) (\<lambda>eligible_coins.
        let sorted_coins = sort_reverse py annualized_funding_rate eligible_coins;
            top_coins = slice_to top_n sorted_coins
        in Inr top_coins))"

text \<open>The call with every default: thresholds of 10M, 7 days, top 10.\<close>

definition get_top_default :: "python \<Rightarrow> env \<Rightarrow> py_exc + ranked list" where
  "get_top_default py w =
     get_top_funding_rate_coins py w (Finite 10000000) (Finite 10000000) 7 10"

section \<open>Refresh and the cached read\<close>

text \<open>
  A document of the collection \<^verbatim>\<open>hyperliquid_top_coins\<close>. Times are microseconds since
  the epoch, the resolution of \<^verbatim>\<open>datetime\<close>; one hour is \<open>3600000000\<close>. The collection
  is the list of its documents in insertion order; the operations of the database
  itself are taken not to fail, and a stored time is read back as it was written.
\<close>

record document =
  coins :: "ranked list"
  last_updated :: int
  next_update :: int

type_synonym collection = "document list"

definition find_one :: "collection \<Rightarrow> document option" where
  "find_one db = (case db of [] \<Rightarrow> None | d # _ \<Rightarrow> Some d)"

definition delete_many :: "collection \<Rightarrow> collection" where
  "delete_many db = []"

definition insert_one :: "collection \<Rightarrow> document \<Rightarrow> collection" where
  "insert_one db d = db @ [d]"

text \<open>
  \<^verbatim>\<open>update_hyperliquid_data\<close>. The first component is what the caller sees (the function
  returns \<^verbatim>\<open>None\<close> or raises), the second the collection afterwards. The whole body is
  inside \<^verbatim>\<open>try ... except Exception\<close>, which logs and returns.
\<close>

definition update_hyperliquid_data ::
  "python \<Rightarrow> env \<Rightarrow> collection \<Rightarrow> (py_exc + unit) \<times> collection" where
  "update_hyperliquid_data py w db =
     (case get_top_default py w of
        Inl exc \<Rightarrow> (Inr (), db)
      | Inr cs \<Rightarrow>
          let now = clock_update w;
              next_update' = now + 3600000000
          in (Inr (), insert_one (delete_many db)
                        \<lparr>coins = cs, last_updated = now, next_update = next_update'\<rparr>))"

text \<open>
  The response model of one coin. The server uses version 2 of pydantic
  (\<^verbatim>\<open>model_dump\<close>), which accepts a string only for \<^verbatim>\<open>coin: str\<close>.
\<close>

datatype hyperliquid_coin =
  HyperliquidCoin string pyfloat pyfloat pyfloat pyfloat pyfloat pyfloat nat

definition validate_coin :: "ranked \<Rightarrow> py_exc + hyperliquid_coin" where
  "validate_coin c =
     (case coin c of
        JStr s \<Rightarrow> Inr (HyperliquidCoin s (avg_funding_rate c) (avg_funding_rate_pct c)
                        (open_interest_usd c) (daily_volume_usd c) (mark_price c)
                        (current_funding_rate c) (funding_data_points c))
      | _ \<Rightarrow> Inl ValidationError)"

fun validate_coins :: "ranked list \<Rightarrow> py_exc + hyperliquid_coin list" where
  "validate_coins [] = Inr []"
| "validate_coins (c # cs) =
     ebind (validate_coin c) (\<lambda>v. ebind (validate_coins cs) (\<lambda>vs. Inr (v # vs)))"

text \<open>
  What the endpoint answers: \<^verbatim>\<open>HTTPException(status_code)\<close> raised to the framework, or
  a \<^verbatim>\<open>HyperliquidResponse(success, coins, last_updated, next_update, error)\<close>.
\<close>

datatype reply =
  HTTPException int
  | HyperliquidResponse bool "hyperliquid_coin list" int int "py_exc option"

text \<open>
  What one request observes: the outside world at its first and at its second call of
  \<^verbatim>\<open>update_hyperliquid_data\<close>, the clock at the staleness test, and the two clock
  readings of the \<^verbatim>\<open>except Exception\<close> branch.
\<close>

record request_env =
  first_refresh :: env
  clock_read :: int
  second_refresh :: env
  clock_fail1 :: int
  clock_fail2 :: int

definition failure :: "request_env \<Rightarrow> py_exc \<Rightarrow> reply" where
  "failure rq e = HyperliquidResponse False [] (clock_fail1 rq) (clock_fail2 rq) (Some e)"

text \<open>
  \<^verbatim>\<open>get_hyperliquid_top_coins\<close>. The result is the answer, the collection afterwards, and
  the number of calls of \<^verbatim>\<open>update_hyperliquid_data\<close> the request made (a counter added
  to the model; the code keeps none).
\<close>

definition get_hyperliquid_top_coins ::
  "python \<Rightarrow> request_env \<Rightarrow> collection \<Rightarrow> bool \<Rightarrow> reply \<times> collection \<times> nat" where
  "get_hyperliquid_top_coins py rq db force_refresh =
     (let cached_data = find_one db
      in case (if force_refresh \<or> cached_data = None
               then (case update_hyperliquid_data py (first_refresh rq) db of
                       (Inl e, db') \<Rightarrow> Inl (e, db')
                     | (Inr u, db') \<Rightarrow> Inr (db', find_one db', 1))
               else Inr (db, cached_data, 0)) of
           Inl (e, db') \<Rightarrow> (failure rq e, db', 1)
         | Inr (db1, cached1, n1) \<Rightarrow>
             (case cached1 of
                None \<Rightarrow> (HTTPException 503, db1, n1)
              | Some c1 \<Rightarrow>
                  (case (if clock_read rq - last_updated c1 > 3600000000
                         then (case update_hyperliquid_data py (second_refresh rq) db1 of
                                 (Inl e, db') \<Rightarrow> Inl (e, db', n1 + 1)
                               | (Inr u, db') \<Rightarrow> Inr (db', find_one db', n1 + 1))
                         else Inr (db1, cached1, n1)) of
                     Inl (e, db', n') \<Rightarrow> (failure rq e, db', n')
                   | Inr (db2, cached2, n2) \<Rightarrow>
                       (case cached2 of
                          None \<Rightarrow> (failure rq TypeError, db2, n2)
                        | Some c2 \<Rightarrow>
                            (case validate_coins (coins c2) of
                               Inl e \<Rightarrow> (failure rq e, db2, n2)
                             | Inr cs \<Rightarrow>
                                 (HyperliquidResponse True cs (last_updated c2) (next_update c2)
                                    None, db2, n2))))))"

section \<open>Definitions used in the statements\<close>

text \<open>
  What one iteration of the loop appends: the instrument it built, or nothing when it
  went on to the next index. The list built by a loop that ends normally is these, in
  the order of the indices (\<open>for_loop_Inr\<close> below).
\<close>

definition appended ::
  "(nat \<Rightarrow> dict \<Rightarrow> py_exc + ranked option) \<Rightarrow> nat \<times> dict \<Rightarrow> ranked option" where
  "appended body = (\<lambda>(i, coin_meta). case body i coin_meta of Inl e \<Rightarrow> None | Inr r \<Rightarrow> r)"



subsection \<open>A runtime to run the model on\<close>

text \<open>
  To evaluate the model at a concrete input the parameters of \<open>python\<close> need values.
  \<open>exact_python\<close> computes without rounding, which is what binary64 arithmetic does
  whenever the exact result is a binary64 number; the concrete inputs below are chosen
  so (integers, halves, quarters and eighths of moderate size), and there \<open>exact_python\<close>
  is the language. Its parser reads plain decimal literals and \<open>nan\<close>; its sort of keys
  with a NaN leaves the list as it is, which is what \<^verbatim>\<open>list.sort\<close> does on the
  two-element lists used below.
\<close>

fun exact_add :: "pyfloat \<Rightarrow> pyfloat \<Rightarrow> pyfloat" where
  "exact_add NaN b = NaN"
| "exact_add a NaN = NaN"
| "exact_add (Finite a) (Finite b) = Finite (a + b)"
| "exact_add PosInf NegInf = NaN"
| "exact_add NegInf PosInf = NaN"
| "exact_add PosInf b = PosInf"
| "exact_add NegInf b = NegInf"
| "exact_add a PosInf = PosInf"
| "exact_add a NegInf = NegInf"

definition negate :: "pyfloat \<Rightarrow> pyfloat" where
  "negate a = (case a of Finite x \<Rightarrow> Finite (- x) | PosInf \<Rightarrow> NegInf
               | NegInf \<Rightarrow> PosInf | NaN \<Rightarrow> NaN)"

fun exact_mul :: "pyfloat \<Rightarrow> pyfloat \<Rightarrow> pyfloat" where
  "exact_mul NaN b = NaN"
| "exact_mul a NaN = NaN"
| "exact_mul (Finite a) (Finite b) = Finite (a * b)"
| "exact_mul (Finite a) b = (if a = 0 then NaN else if 0 < a then b else negate b)"
| "exact_mul a (Finite b) = (if b = 0 then NaN else if 0 < b then a else negate a)"
| "exact_mul PosInf b = b"
| "exact_mul NegInf b = negate b"

fun exact_div :: "pyfloat \<Rightarrow> pyfloat \<Rightarrow> pyfloat" where
  "exact_div NaN b = NaN"
| "exact_div a NaN = NaN"
| "exact_div (Finite a) (Finite b) = (if b = 0 then NaN else Finite (a / b))"
| "exact_div (Finite a) b = Finite 0"
| "exact_div a (Finite b) = (if 0 \<le> b then a else negate a)"
| "exact_div a b = NaN"

definition digit_of :: "char \<Rightarrow> nat option" where
  "digit_of c =
     (let n = (of_char c :: nat) in if 48 \<le> n \<and> n \<le> 57 then Some (n - 48) else None)"

fun digits_value :: "nat \<Rightarrow> string \<Rightarrow> nat option" where
  "digits_value acc [] = Some acc"
| "digits_value acc (c # cs) =
     (case digit_of c of None \<Rightarrow> None | Some d \<Rightarrow> digits_value (10 * acc + d) cs)"

definition unsigned_decimal :: "string \<Rightarrow> rat option" where
  "unsigned_decimal s =
     (let ip = takeWhile (\<lambda>c. c \<noteq> CHR ''.'') s;
          rest = dropWhile (\<lambda>c. c \<noteq> CHR ''.'') s;
          fp = (case rest of [] \<Rightarrow> [] | _ # r \<Rightarrow> r)
      in if ip = [] \<and> fp = [] then None
         else (case digits_value 0 (ip @ fp) of
                 None \<Rightarrow> None
               | Some n \<Rightarrow> Some (of_nat n / of_nat (10 ^ length fp))))"

definition decimal_of_string :: "string \<Rightarrow> pyfloat option" where
  "decimal_of_string s =
     (if s = ''nan'' then Some NaN
      else map_option Finite
        (case s of
           [] \<Rightarrow> None
         | c # cs \<Rightarrow>
             if c = CHR ''-'' then map_option uminus (unsigned_decimal cs)
             else if c = CHR ''+'' then unsigned_decimal cs
             else unsigned_decimal s))"

definition exact_python :: python where
  "exact_python =
     \<lparr>float_of_str = decimal_of_string,
      float_of_int = (\<lambda>n. if \<bar>n\<bar> < 2 ^ 1024 - 2 ^ 970 then Some (Finite (of_int n))
                           else None),
      fmul = exact_mul,
      fdiv = exact_div,
      fsum = foldl exact_add (Finite 0),
      sort_with_nan = (\<lambda>keys. [0..<length keys])\<rparr>"

subsection \<open>Concrete inputs\<close>

text \<open>
  A context above both default thresholds, with open interest \<open>100\<close> at mark price
  \<open>100000\<close> (ten million USD, exactly the threshold); a funding history of two entries
  of the same rate; and the instrument the ranking builds from the two for a coin
  \<open>nm\<close> whose entries have the rate \<open>r\<close>.
\<close>

definition liquid_context :: dict where
  "liquid_context = [''openInterest'' \<mapsto> JStr ''100'', ''markPx'' \<mapsto> JStr ''100000'',
                     ''dayNtlVlm'' \<mapsto> JStr ''20000000'', ''funding'' \<mapsto> JStr ''0.125'']"

definition two_entries :: "string \<Rightarrow> dict list" where
  "two_entries r = [[''fundingRate'' \<mapsto> JStr r], [''fundingRate'' \<mapsto> JStr r]]"

definition ranked_at :: "string \<Rightarrow> rat \<Rightarrow> ranked" where
  "ranked_at nm r =
     \<lparr>coin = JStr nm,
      avg_funding_rate = Finite r,
      avg_funding_rate_pct = Finite (r * 100),
      annualized_funding_rate = Finite (r * 3 * 365),
      annualized_funding_rate_pct = Finite (r * 3 * 365 * 100),
      current_funding_rate = Finite (1 / 8),
      current_funding_rate_annualized = Finite (1095 / 8),
      current_funding_rate_annualized_pct = Finite (27375 / 2),
      total_7d_funding_pct = Finite (2 * r * 100),
      open_interest_usd = Finite 10000000,
      daily_volume_usd = Finite 20000000,
      mark_price = Finite 100000,
      funding_data_points = 2\<rparr>"

text \<open>
  One instrument \<open>A\<close> with rates of one half, as in scenario A of the specification
  (the rates there, \<open>0.0001\<close>, are not binary64 numbers).
\<close>

definition scenario_one :: env where
  "scenario_one =
     \<lparr>meta_status = 200,
      meta_body = Inr ([[''name'' \<mapsto> JStr ''A'']], [liquid_context]),
      funding_reply = (\<lambda>payload. (200, Inr (two_entries ''0.5''))),
      clock_end = 1700000000000,
      clock_start = (\<lambda>days. 1700000000000 - days * 86400000),
      clock_update = 1700000000000000\<rparr>"

text \<open>
  Three instruments in the order \<open>B\<close>, \<open>A\<close>, \<open>C\<close>: \<open>B\<close> has rates of one quarter,
  \<open>A\<close> and \<open>C\<close> of one half.
\<close>

definition scenario_three :: env where
  "scenario_three =
     scenario_one
       \<lparr>meta_body := Inr ([[''name'' \<mapsto> JStr ''B''], [''name'' \<mapsto> JStr ''A''],
                            [''name'' \<mapsto> JStr ''C'']],
                           replicate 3 liquid_context),
        funding_reply := (\<lambda>payload. (200, Inr (if payload ''coin'' = Some (JStr ''B'')
                                                   then two_entries ''0.25''
                                                   else two_entries ''0.5'')))\<rparr>"

text \<open>An exchange that has a funding history only for requests that end at \<open>2000\<close>.\<close>

definition only_end_time :: env where
  "only_end_time =
     scenario_one
       \<lparr>funding_reply := (\<lambda>payload. (200, Inr (if payload ''endTime'' = Some (JInt 2000)
                                                   then two_entries ''0.5'' else [])))\<rparr>"

text \<open>
  Inputs with \<open>nan\<close>, which \<^verbatim>\<open>float\<close> accepts: a context whose open interest is
  \<open>nan\<close>, as the context of \<open>A\<close>; a funding history of \<open>A\<close> whose rates are \<open>nan\<close>; and
  the two instruments \<open>A\<close>, \<open>C\<close> of which \<open>A\<close> has such a history. \<open>nan_rates\<close> turns the
  expected instrument into the one built from rates that are NaN.
\<close>

definition nan_context :: dict where
  "nan_context = liquid_context(''openInterest'' \<mapsto> JStr ''nan'')"

definition scenario_nan_interest :: env where
  "scenario_nan_interest =
     scenario_one\<lparr>meta_body := Inr ([[''name'' \<mapsto> JStr ''A'']], [nan_context])\<rparr>"

definition scenario_nan_rate :: env where
  "scenario_nan_rate =
     scenario_one\<lparr>funding_reply := (\<lambda>payload. (200, Inr (two_entries ''nan'')))\<rparr>"

definition scenario_nan_first :: env where
  "scenario_nan_first =
     scenario_one
       \<lparr>meta_body := Inr ([[''name'' \<mapsto> JStr ''A''], [''name'' \<mapsto> JStr ''C'']],
                           replicate 2 liquid_context),
        funding_reply := (\<lambda>payload. (200, Inr (if payload ''coin'' = Some (JStr ''A'')
                                                   then two_entries ''nan''
                                                   else two_entries ''0.5'')))\<rparr>"

definition nan_rates :: "ranked \<Rightarrow> ranked" where
  "nan_rates c =
     c\<lparr>avg_funding_rate := NaN, avg_funding_rate_pct := NaN,
       annualized_funding_rate := NaN, annualized_funding_rate_pct := NaN,
       total_7d_funding_pct := NaN\<rparr>"







text \<open>
  Scenario D: the exchange answers the bulk request with HTTP 500. \<open>env_nameless\<close> is an
  exchange whose only metadata entry has no name, so that the ranking raises
  \<^verbatim>\<open>KeyError\<close>. \<open>old_doc\<close> is a snapshot stored at time \<open>0\<close>, \<open>coin_a\<close> its coin as
  the response model holds it.
\<close>

definition env_500 :: env where
  "env_500 = scenario_one\<lparr>meta_status := 500\<rparr>"

definition env_nameless :: env where
  "env_nameless = scenario_one\<lparr>meta_body := Inr ([Map.empty], [liquid_context])\<rparr>"

definition old_doc :: document where
  "old_doc = \<lparr>coins = [ranked_at ''A'' (1 / 2)], last_updated = 0, next_update = 3600000000\<rparr>"

definition coin_a :: hyperliquid_coin where
  "coin_a = HyperliquidCoin ''A'' (Finite (1 / 2)) (Finite 50) (Finite 10000000)
              (Finite 20000000) (Finite 100000) (Finite (1 / 8)) 2"

text \<open>
  Requests during which every refresh fails: one read more than an hour after
  \<open>old_doc\<close> was stored, one read within the hour, both with the exchange answering 500,
  and one within the hour with the nameless metadata. \<open>rq_ok\<close> is a request during which
  the exchange answers as in scenario \<open>one\<close>, and \<open>new_doc\<close> the document such a refresh
  stores.
\<close>

definition rq_fail_stale :: request_env where
  "rq_fail_stale = \<lparr>first_refresh = env_500, clock_read = 3600000001,
                     second_refresh = env_500, clock_fail1 = 3600000002,
                     clock_fail2 = 3600000003\<rparr>"

definition rq_fail_fresh :: request_env where
  "rq_fail_fresh = rq_fail_stale\<lparr>clock_read := 1000\<rparr>"

definition rq_nameless :: request_env where
  "rq_nameless = rq_fail_fresh\<lparr>first_refresh := env_nameless, second_refresh := env_nameless\<rparr>"

definition rq_ok :: request_env where
  "rq_ok = \<lparr>first_refresh = scenario_one, clock_read = 1700000000000005,
             second_refresh = scenario_one, clock_fail1 = 1700000000000006,
             clock_fail2 = 1700000000000007\<rparr>"

definition new_doc :: document where
  "new_doc = \<lparr>coins = [ranked_at ''A'' (1 / 2)], last_updated = 1700000000000000,
               next_update = 1700003600000000\<rparr>"

section \<open>Properties\<close>

subsection \<open>Exceptions and the average\<close>

lemma ebind_Inr_iff: "ebind m f = Inr y \<longleftrightarrow> (\<exists>x. m = Inr x \<and> f x = Inr y)"
  by (cases m) (simp_all add: ebind_def)

lemma ebind_Inl_iff: "ebind m f = Inl e \<longleftrightarrow> m = Inl e \<or> (\<exists>x. m = Inr x \<and> f x = Inl e)"
  by (cases m) (simp_all add: ebind_def)

lemma py_float_raises: "py_float py v = Inl e \<Longrightarrow> caught e \<or> e = OverflowError"
  by (auto simp: py_float_def caught_def split: json.splits option.splits)

lemma subscript_caught: "subscript d k = Inl e \<Longrightarrow> caught e"
  by (auto simp: subscript_def caught_def split: option.splits)

lemma funding_rates_length: "funding_rates py h = Inr rs \<Longrightarrow> length rs = length h"
  by (induction h arbitrary: rs) (auto simp: ebind_Inr_iff)

lemma funding_rates_raises: "funding_rates py h = Inl e \<Longrightarrow> caught e \<or> e = OverflowError"
  by (induction h) (auto simp: ebind_Inl_iff dest: py_float_raises subscript_caught)

text \<open>
  Claim C10. \<^verbatim>\<open>calculate_average_funding_rate\<close> returns \<open>0.0\<close> for an empty history
  without dividing, and never raises \<^verbatim>\<open>ZeroDivisionError\<close>: when every entry has a
  \<^verbatim>\<open>fundingRate\<close> that converts, it returns the float sum of the rates divided by
  their number, and otherwise it raises the exception of the first entry that does not
  convert.
\<close>

theorem calculate_average_funding_rate_total:
  "calculate_average_funding_rate py [] = Inr (Finite 0)
   \<and> calculate_average_funding_rate py h \<noteq> Inl ZeroDivisionError
   \<and> (\<forall>rs. funding_rates py h = Inr rs \<longrightarrow>
         calculate_average_funding_rate py h
           = Inr (if h = [] then Finite 0
                  else fdiv py (fsum py rs) (Finite (of_nat (length h)))))
   \<and> (\<forall>e. funding_rates py h = Inl e \<longrightarrow>
         calculate_average_funding_rate py h = Inl e \<and> (caught e \<or> e = OverflowError))"
proof (intro conjI allI impI)
  show "calculate_average_funding_rate py [] = Inr (Finite 0)"
    by (simp add: calculate_average_funding_rate_def)
next
  show "calculate_average_funding_rate py h \<noteq> Inl ZeroDivisionError"
  proof (cases "funding_rates py h")
    case (Inl e)
    then have "caught e \<or> e = OverflowError" by (rule funding_rates_raises)
    with Inl show ?thesis
      by (auto simp: calculate_average_funding_rate_def ebind_def caught_def)
  next
    case (Inr rs)
    then show ?thesis
      by (auto simp: calculate_average_funding_rate_def ebind_def py_truediv_def)
  qed
next
  fix rs assume "funding_rates py h = Inr rs"
  then show "calculate_average_funding_rate py h
           = Inr (if h = [] then Finite 0
                  else fdiv py (fsum py rs) (Finite (of_nat (length h))))"
    using funding_rates_length [of py h rs]
    by (auto simp: calculate_average_funding_rate_def ebind_def py_truediv_def)
next
  fix e assume "funding_rates py h = Inl e"
  then show "calculate_average_funding_rate py h = Inl e"
    by (cases h) (auto simp: calculate_average_funding_rate_def ebind_def)
next
  fix e assume "funding_rates py h = Inl e"
  then show "caught e \<or> e = OverflowError" by (rule funding_rates_raises)
qed

lemma exact_fields:
  "float_of_str exact_python = decimal_of_string"
  "fmul exact_python = exact_mul"
  "fdiv exact_python = exact_div"
  "fsum exact_python = foldl exact_add (Finite 0)"
  "sort_with_nan exact_python = (\<lambda>keys. [0..<length keys])"
  by (simp_all add: exact_python_def)

lemma decimals:
  "decimal_of_string ''0.5'' = Some (Finite (1 / 2))"
  "decimal_of_string ''0.25'' = Some (Finite (1 / 4))"
  "decimal_of_string ''0.125'' = Some (Finite (1 / 8))"
  "decimal_of_string ''100'' = Some (Finite 100)"
  "decimal_of_string ''100000'' = Some (Finite 100000)"
  "decimal_of_string ''20000000'' = Some (Finite 20000000)"
  "decimal_of_string ''0'' = Some (Finite 0)"
  "decimal_of_string ''abc'' = None"
  "decimal_of_string ''nan'' = Some NaN"
  by (simp_all add: decimal_of_string_def unsigned_decimal_def digit_of_def)

lemma two_entries_rates:
  "float_of_str py r = Some x \<Longrightarrow> funding_rates py (two_entries r) = Inr [x, x]"
  by (simp add: two_entries_def ebind_def subscript_def py_float_def)

theorem calculate_average_funding_rate_total_witness:
  "calculate_average_funding_rate exact_python (two_entries ''0.5'') = Inr (Finite (1 / 2))
   \<and> calculate_average_funding_rate exact_python [Map.empty] = Inl KeyError"
proof -
  have a: "funding_rates exact_python [Map.empty] = Inl KeyError"
    by (simp add: ebind_def subscript_def)
  have b: "two_entries ''0.5'' \<noteq> []" "length (two_entries ''0.5'') = 2"
    by (simp_all add: two_entries_def)
  have c: "funding_rates exact_python (two_entries ''0.5'') = Inr [Finite (1 / 2), Finite (1 / 2)]"
    by (rule two_entries_rates) (simp add: exact_fields decimals)
  show ?thesis
    using calculate_average_funding_rate_total [of exact_python "two_entries ''0.5''"]
      calculate_average_funding_rate_total [of exact_python "[Map.empty]"] a b c
    by (simp add: exact_fields)
qed

text \<open>
  Claim C9. The payload of \<^verbatim>\<open>fetch_funding_history\<close> has the key \<^verbatim>\<open>endTime\<close>
  exactly when \<open>end_time\<close> is given and is not zero, and then with that value; its
  other keys do not depend on \<open>end_time\<close>. The request sent is the one with this
  payload: the result is the body of the reply to it, or the empty list when the status
  is not 200. So with \<open>end_time = 0\<close> the request and the result are those of an
  omitted \<open>end_time\<close>.
\<close>

theorem fetch_funding_history_end_time_zero:
  "funding_payload c start_time end_time ''endTime''
     = (case end_time of None \<Rightarrow> None
        | Some t \<Rightarrow> if t = 0 then None else Some (JInt t))
   \<and> (\<forall>k. k \<noteq> ''endTime'' \<longrightarrow>
         funding_payload c start_time end_time k
           = [''type'' \<mapsto> JStr ''fundingHistory'', ''coin'' \<mapsto> c,
              ''startTime'' \<mapsto> JInt start_time] k)
   \<and> fetch_funding_history w c start_time end_time
       = (if fst (funding_reply w (funding_payload c start_time end_time)) \<noteq> 200 then Inr []
          else snd (funding_reply w (funding_payload c start_time end_time)))
   \<and> funding_payload c start_time (Some 0) = funding_payload c start_time None
   \<and> fetch_funding_history w c start_time (Some 0) = fetch_funding_history w c start_time None"
  by (simp add: funding_payload_def fetch_funding_history_def Let_def
      split: option.splits prod.splits)

theorem fetch_funding_history_end_time_zero_witness:
  "fetch_funding_history only_end_time (JStr ''A'') 1000 (Some 2000) = Inr (two_entries ''0.5'')
   \<and> fetch_funding_history only_end_time (JStr ''A'') 1000 (Some 0) = Inr []
   \<and> fetch_funding_history only_end_time (JStr ''A'') 1000 None = Inr []
   \<and> funding_payload (JStr ''A'') 1000 (Some 2000) ''endTime'' = Some (JInt 2000)
   \<and> funding_payload (JStr ''A'') 1000 (Some 0) ''endTime'' = None"
  using fetch_funding_history_end_time_zero [of "JStr ''A''" 1000 "Some 2000" only_end_time]
    fetch_funding_history_end_time_zero [of "JStr ''A''" 1000 "Some 0" only_end_time]
    fetch_funding_history_end_time_zero [of "JStr ''A''" 1000 None only_end_time]
  by (simp add: only_end_time_def)

subsection \<open>One instrument\<close>

lemma fl_ge_iff: "fl_ge a b \<longleftrightarrow> a \<noteq> NaN \<and> b \<noteq> NaN \<and> \<not> fl_lt a b"
  by (cases a; cases b) (auto simp: fl_ge_def fl_eq_def)

lemma fl_key_inj: "fl_key a = fl_key b \<longleftrightarrow> a = b"
  by (cases a; cases b) simp_all

lemma fl_key_le: "a \<noteq> NaN \<Longrightarrow> b \<noteq> NaN \<Longrightarrow> fl_key a \<le> fl_key b \<longleftrightarrow> fl_ge b a"
  by (cases a; cases b) (auto simp: fl_ge_iff)

lemma calculate_average_Inr:
  assumes "calculate_average_funding_rate py h = Inr a" "h \<noteq> []"
  shows "\<exists>rs. funding_rates py h = Inr rs \<and> rs \<noteq> []
            \<and> a = fdiv py (fsum py rs) (Finite (of_nat (length rs)))"
proof (cases "funding_rates py h")
  case (Inl e)
  with assms show ?thesis
    by (simp add: calculate_average_funding_rate_def ebind_def)
next
  case (Inr rs)
  moreover from Inr assms(2) have "rs \<noteq> []"
    using funding_rates_length [of py h rs] by auto
  ultimately show ?thesis using assms
    by (auto simp: calculate_average_funding_rate_def ebind_def py_truediv_def split: if_splits)
qed

lemma calculate_average_raises:
  "calculate_average_funding_rate py h = Inl e \<Longrightarrow> caught e \<or> e = OverflowError"
  using calculate_average_funding_rate_total [of py h]
  by (cases "funding_rates py h") auto

lemma try_body_raises:
  "try_body py w a b s e nm ctx = Inl x \<Longrightarrow>
     caught x \<or> x = OverflowError \<or> fetch_funding_history w nm s (Some e) = Inl x"
  unfolding try_body_def Let_def
  by (auto simp: ebind_Inl_iff split: if_splits
      dest: py_float_raises funding_rates_raises calculate_average_raises)

lemma try_body_Some:
  assumes "try_body py w a b s e nm ctx = Inr (Some c)"
  shows "coin c = nm"
    and "\<not> fl_lt (open_interest_usd c) a" and "\<not> fl_lt (daily_volume_usd c) b"
    and "\<exists>h rs. fetch_funding_history w nm s (Some e) = Inr h \<and> h \<noteq> []
            \<and> funding_data_points c = length h
            \<and> funding_rates py h = Inr rs \<and> rs \<noteq> []
            \<and> avg_funding_rate c = fdiv py (fsum py rs) (Finite (of_nat (length rs)))"
    and "annualized_funding_rate c
           = fmul py (fmul py (avg_funding_rate c) (Finite 3)) (Finite 365)"
  using assms unfolding try_body_def Let_def
  by (auto simp: ebind_Inr_iff split: if_splits dest: calculate_average_Inr)

subsection \<open>The loop, the sort and the slice\<close>

lemma for_loop_Inr:
  "for_loop body i ms acc = Inr out \<Longrightarrow>
     out = acc @ List.map_filter (appended body) (List.enumerate i ms)"
proof (induction ms arbitrary: i acc)
  case Nil
  then show ?case by simp
next
  case (Cons m ms)
  show ?case
  proof (cases "body i m")
    case (Inl e)
    with Cons.prems show ?thesis by simp
  next
    case (Inr r)
    show ?thesis
    proof (cases r)
      case None
      with Inr Cons.prems have "for_loop body (Suc i) ms acc = Inr out" by simp
      from Cons.IH [OF this] Inr None show ?thesis
        by (simp add: appended_def)
    next
      case (Some c)
      with Inr Cons.prems have "for_loop body (Suc i) ms (acc @ [c]) = Inr out" by simp
      from Cons.IH [OF this] Inr Some show ?thesis
        by (simp add: appended_def)
    qed
  qed
qed


lemma for_loop_member:
  assumes "for_loop body i ms acc = Inr out" "c \<in> set out"
  shows "c \<in> set acc \<or> (\<exists>j m. (j, m) \<in> set (List.enumerate i ms) \<and> body j m = Inr (Some c))"
proof -
  from for_loop_Inr [OF assms(1)] assms(2)
  have "c \<in> set acc \<or> c \<in> set (List.map_filter (appended body) (List.enumerate i ms))" by auto
  then show ?thesis
  proof
    assume "c \<in> set acc" then show ?thesis ..
  next
    assume "c \<in> set (List.map_filter (appended body) (List.enumerate i ms))"
    then obtain p where "p \<in> set (List.enumerate i ms)" "appended body p = Some c"
      by (auto simp: List.map_filter_def)
    moreover obtain j m where p: "p = (j, m)" by (cases p)
    ultimately have "(j, m) \<in> set (List.enumerate i ms)" "body j m = Inr (Some c)"
      by (simp_all add: appended_def split: sum.splits)
    then show ?thesis by blast
  qed
qed

lemma sort_reverse_sorted:
  assumes "\<forall>x \<in> set xs. k x \<noteq> NaN"
  shows "sorted_wrt (\<lambda>x y. fl_ge (k x) (k y)) (sort_reverse py k xs)"
proof -
  let ?s = "sort_key (\<lambda>x. fl_key (k x)) (rev xs)"
  have "sorted (map (\<lambda>x. fl_key (k x)) ?s)" by (rule sorted_sort_key)
  then have "sorted_wrt (\<lambda>x y. fl_key (k x) \<le> fl_key (k y)) ?s"
    by (simp add: sorted_map)
  then have a: "sorted_wrt (\<lambda>x y. fl_key (k y) \<le> fl_key (k x)) (rev ?s)"
    by (simp add: sorted_wrt_rev)
  have b: "\<forall>x \<in> set (rev ?s). k x \<noteq> NaN" using assms by simp
  have "sorted_wrt (\<lambda>x y. fl_ge (k x) (k y)) (rev ?s)"
  proof (rule sorted_wrt_mono_rel [OF _ a])
    fix x y
    assume "x \<in> set (rev ?s)" "y \<in> set (rev ?s)" "fl_key (k y) \<le> fl_key (k x)"
    with b show "fl_ge (k x) (k y)" by (simp add: fl_key_le)
  qed
  with assms show ?thesis by (simp add: sort_reverse_def)
qed

lemma sort_reverse_mset:
  "\<forall>x \<in> set xs. k x \<noteq> NaN \<Longrightarrow> mset (sort_reverse py k xs) = mset xs"
  by (simp add: sort_reverse_def)

lemma sort_reverse_stable:
  assumes "\<forall>x \<in> set xs. k x \<noteq> NaN"
  shows "filter (\<lambda>x. k x = v) (sort_reverse py k xs) = filter (\<lambda>x. k x = v) xs"
proof -
  have "filter (\<lambda>x. fl_key (k x) = fl_key v) (sort_key (\<lambda>x. fl_key (k x)) (rev xs))
          = filter (\<lambda>x. fl_key (k x) = fl_key v) (rev xs)"
    by (rule sort_key_stable)
  then have "filter (\<lambda>x. k x = v) (sort_key (\<lambda>x. fl_key (k x)) (rev xs))
          = filter (\<lambda>x. k x = v) (rev xs)"
    by (simp add: fl_key_inj)
  with assms show ?thesis
    by (simp add: sort_reverse_def rev_filter [symmetric])
qed

lemma slice_to_set: "set (slice_to n xs) \<subseteq> set xs"
  by (auto simp: slice_to_def dest: in_set_takeD)

lemma loop_body_Some:
  assumes "loop_body py w a b s e contexts i m = Inr (Some c)"
  shows "i < length contexts
         \<and> (\<exists>nm. m ''name'' = Some nm \<and> try_body py w a b s e nm (contexts ! i) = Inr (Some c))"
  using assms unfolding loop_body_def Let_def
  by (auto simp: ebind_Inr_iff subscript_def split: if_splits option.splits sum.splits)

subsection \<open>The concrete inputs, evaluated\<close>

lemma liquid_fields:
  "py_float exact_python (dict_get liquid_context ''openInterest'' (JStr ''0'')) = Inr (Finite 100)"
  "py_float exact_python (dict_get liquid_context ''markPx'' (JStr ''0'')) = Inr (Finite 100000)"
  "py_float exact_python (dict_get liquid_context ''dayNtlVlm'' (JStr ''0''))
     = Inr (Finite 20000000)"
  "py_float exact_python (dict_get liquid_context ''funding'' (JStr ''0'')) = Inr (Finite (1 / 8))"
  by (simp_all add: liquid_context_def dict_get_def py_float_def exact_fields decimals)

lemma liquid_try_body:
  assumes "fetch_funding_history w (JStr nm) s (Some e) = Inr (two_entries rs)"
    and "decimal_of_string rs = Some (Finite r)"
  shows "try_body exact_python w (Finite 10000000) (Finite 10000000) s e (JStr nm) liquid_context
           = Inr (Some (ranked_at nm r))"
proof -
  have n: "two_entries rs \<noteq> []" "length (two_entries rs) = 2"
    by (simp_all add: two_entries_def)
  have f: "funding_rates exact_python (two_entries rs) = Inr [Finite r, Finite r]"
    by (rule two_entries_rates) (simp add: exact_fields assms(2))
  have a: "calculate_average_funding_rate exact_python (two_entries rs) = Inr (Finite r)"
    by (simp add: calculate_average_funding_rate_def n f ebind_def py_truediv_def exact_fields)
  show ?thesis
    unfolding try_body_def Let_def liquid_fields assms(1)
    by (simp add: ebind_def n f a exact_fields ranked_at_def)
qed

lemma scenario_one_fields:
  "meta_status scenario_one = 200"
  "meta_body scenario_one = Inr ([[''name'' \<mapsto> JStr ''A'']], [liquid_context])"
  "funding_reply scenario_one = (\<lambda>payload. (200, Inr (two_entries ''0.5'')))"
  "clock_end scenario_one = 1700000000000"
  "clock_update scenario_one = 1700000000000000"
  by (simp_all add: scenario_one_def)

lemma scenario_one_body:
  "loop_body exact_python scenario_one (Finite 10000000) (Finite 10000000) s e
     [liquid_context] 0 [''name'' \<mapsto> JStr ''A''] = Inr (Some (ranked_at ''A'' (1 / 2)))"
proof -
  have "fetch_funding_history scenario_one (JStr ''A'') s (Some e) = Inr (two_entries ''0.5'')"
    by (simp add: fetch_funding_history_def scenario_one_fields)
  from liquid_try_body [OF this decimals(1)] show ?thesis
    by (simp add: loop_body_def subscript_def ebind_def)
qed

lemma ranked_at_key: "annualized_funding_rate (ranked_at nm r) = Finite (r * 3 * 365)"
  by (simp add: ranked_at_def)

lemma scenario_one_result:
  "get_top_funding_rate_coins exact_python scenario_one (Finite 10000000) (Finite 10000000) 7 10
     = Inr [ranked_at ''A'' (1 / 2)]"
proof -
  have m: "fetch_meta_and_contexts scenario_one
             = Inr ([[''name'' \<mapsto> JStr ''A'']], [liquid_context])"
    by (simp add: fetch_meta_and_contexts_def scenario_one_fields ebind_def)
  show ?thesis
    unfolding get_top_funding_rate_coins_def m
    by (simp add: ebind_def Let_def scenario_one_body sort_reverse_def slice_to_def ranked_at_key)
qed

subsection \<open>The ranking\<close>

lemma sort_reverse_set: "set (sort_reverse py k xs) \<subseteq> set xs"
proof (cases "\<forall>x \<in> set xs. k x \<noteq> NaN")
  case True
  then show ?thesis by (simp add: sort_reverse_def)
next
  case False
  then have "sort_reverse py k xs
               = map (\<lambda>i. xs ! i) (filter (\<lambda>i. i < length xs) (sort_with_nan py (map k xs)))"
    by (simp only: sort_reverse_def if_False)
  then show ?thesis by auto
qed

lemma get_top_member:
  assumes "get_top_funding_rate_coins py w a b days_back top_n = Inr out" and "c \<in> set out"
  shows "\<exists>universe contexts j nm. fetch_meta_and_contexts w = Inr (universe, contexts)
           \<and> j < length contexts \<and> j < length universe
           \<and> (universe ! j) ''name'' = Some nm
           \<and> try_body py w a b (clock_start w days_back) (clock_end w) nm (contexts ! j)
               = Inr (Some c)"
proof -
  from assms(1) obtain universe contexts elig where
    f: "fetch_meta_and_contexts w = Inr (universe, contexts)" and
    l: "for_loop (loop_body py w a b (clock_start w days_back) (clock_end w) contexts)
          0 universe [] = Inr elig" and
    o: "out = slice_to top_n (sort_reverse py annualized_funding_rate elig)"
    unfolding get_top_funding_rate_coins_def Let_def
    by (auto simp: ebind_Inr_iff)
  let ?body = "loop_body py w a b (clock_start w days_back) (clock_end w) contexts"
  from o assms(2) have ce: "c \<in> set elig"
    using slice_to_set sort_reverse_set by fastforce
  from for_loop_member [OF l ce] obtain j m where
    jm: "(j, m) \<in> set (List.enumerate 0 universe)" and b: "?body j m = Inr (Some c)"
    by auto
  from jm have "j < length universe" "m = universe ! j"
    by (auto simp: in_set_enumerate_eq)
  with loop_body_Some [OF b] f show ?thesis by auto
qed

lemma fl_eq_not_lt: "fl_eq a b \<Longrightarrow> \<not> fl_lt a b"
  by (cases a; cases b) (auto simp: fl_eq_def)

lemma try_body_included:
  assumes "py_float py (dict_get ctx ''openInterest'' (JStr ''0'')) = Inr oi"
    and "py_float py (dict_get ctx ''markPx'' (JStr ''0'')) = Inr mk"
    and "py_float py (dict_get ctx ''dayNtlVlm'' (JStr ''0'')) = Inr vol"
    and "py_float py (dict_get ctx ''funding'' (JStr ''0'')) = Inr cur"
    and "\<not> fl_lt (fmul py oi mk) min_oi" and "\<not> fl_lt vol min_vol"
    and "fetch_funding_history w nm s (Some e) = Inr h" and "h \<noteq> []"
    and "funding_rates py h = Inr rs"
  shows "\<exists>c. try_body py w min_oi min_vol s e nm ctx = Inr (Some c)
             \<and> open_interest_usd c = fmul py oi mk \<and> daily_volume_usd c = vol"
proof -
  from assms(8,9) have "rs \<noteq> []"
    using funding_rates_length [of py h rs] by auto
  with assms(8,9)
  have a: "calculate_average_funding_rate py h
             = Inr (fdiv py (fsum py rs) (Finite (of_nat (length rs))))"
    by (simp add: calculate_average_funding_rate_def ebind_def py_truediv_def)
  show ?thesis
    unfolding try_body_def Let_def assms(1-4)
    by (simp add: ebind_def assms(5-9) a)
qed

text \<open>
  Claim C5, as amended. Every instrument returned by the ranking passed the test of the
  filter: its open interest in USD and its daily volume are not below their thresholds,
  which for values that are not NaN means that they are at least the thresholds. The
  funding history fetched for it is not empty (\<open>funding_data_points\<close> is its length).
  Values exactly at the thresholds pass: an instrument whose fields convert, whose open
  interest in USD and volume equal the thresholds and whose history is not empty and
  converts, is built.
\<close>

theorem ranked_meet_thresholds:
  "(get_top_funding_rate_coins py w min_oi min_vol days_back top_n = Inr out \<and> c \<in> set out
      \<longrightarrow> \<not> fl_lt (open_interest_usd c) min_oi \<and> \<not> fl_lt (daily_volume_usd c) min_vol
         \<and> (open_interest_usd c \<noteq> NaN \<and> min_oi \<noteq> NaN
              \<longrightarrow> fl_ge (open_interest_usd c) min_oi)
         \<and> (daily_volume_usd c \<noteq> NaN \<and> min_vol \<noteq> NaN
              \<longrightarrow> fl_ge (daily_volume_usd c) min_vol)
         \<and> (\<exists>h. fetch_funding_history w (coin c) (clock_start w days_back)
                    (Some (clock_end w)) = Inr h
                \<and> h \<noteq> [] \<and> funding_data_points c = length h)
         \<and> 0 < funding_data_points c)
   \<and> (py_float py (dict_get ctx ''openInterest'' (JStr ''0'')) = Inr oi
      \<and> py_float py (dict_get ctx ''markPx'' (JStr ''0'')) = Inr mk
      \<and> py_float py (dict_get ctx ''dayNtlVlm'' (JStr ''0'')) = Inr vol
      \<and> py_float py (dict_get ctx ''funding'' (JStr ''0'')) = Inr cur
      \<and> fl_eq (fmul py oi mk) min_oi \<and> fl_eq vol min_vol
      \<and> fetch_funding_history w nm s (Some e) = Inr h' \<and> h' \<noteq> []
      \<and> funding_rates py h' = Inr rs
      \<longrightarrow> (\<exists>c'. try_body py w min_oi min_vol s e nm ctx = Inr (Some c')
                \<and> open_interest_usd c' = fmul py oi mk \<and> daily_volume_usd c' = vol))"
proof (rule conjI; rule impI)
  assume a: "get_top_funding_rate_coins py w min_oi min_vol days_back top_n = Inr out
             \<and> c \<in> set out"
  then obtain contexts j nm' where
    t: "try_body py w min_oi min_vol (clock_start w days_back) (clock_end w) nm'
          (contexts ! j) = Inr (Some c)"
    using get_top_member [of py w min_oi min_vol days_back top_n out c] by blast
  from try_body_Some [OF t]
  show "\<not> fl_lt (open_interest_usd c) min_oi \<and> \<not> fl_lt (daily_volume_usd c) min_vol
         \<and> (open_interest_usd c \<noteq> NaN \<and> min_oi \<noteq> NaN
              \<longrightarrow> fl_ge (open_interest_usd c) min_oi)
         \<and> (daily_volume_usd c \<noteq> NaN \<and> min_vol \<noteq> NaN
              \<longrightarrow> fl_ge (daily_volume_usd c) min_vol)
         \<and> (\<exists>h. fetch_funding_history w (coin c) (clock_start w days_back)
                    (Some (clock_end w)) = Inr h
                \<and> h \<noteq> [] \<and> funding_data_points c = length h)
         \<and> 0 < funding_data_points c"
    by (auto simp: fl_ge_iff)
next
  assume b: "py_float py (dict_get ctx ''openInterest'' (JStr ''0'')) = Inr oi
      \<and> py_float py (dict_get ctx ''markPx'' (JStr ''0'')) = Inr mk
      \<and> py_float py (dict_get ctx ''dayNtlVlm'' (JStr ''0'')) = Inr vol
      \<and> py_float py (dict_get ctx ''funding'' (JStr ''0'')) = Inr cur
      \<and> fl_eq (fmul py oi mk) min_oi \<and> fl_eq vol min_vol
      \<and> fetch_funding_history w nm s (Some e) = Inr h' \<and> h' \<noteq> []
      \<and> funding_rates py h' = Inr rs"
  then have "\<not> fl_lt (fmul py oi mk) min_oi" "\<not> fl_lt vol min_vol"
    by (simp_all add: fl_eq_not_lt)
  with b try_body_included [of py ctx oi mk vol cur min_oi min_vol w nm s e h' rs]
  show "\<exists>c'. try_body py w min_oi min_vol s e nm ctx = Inr (Some c')
                \<and> open_interest_usd c' = fmul py oi mk \<and> daily_volume_usd c' = vol"
    by auto
qed

theorem ranked_meet_thresholds_witness:
  "get_top_funding_rate_coins exact_python scenario_one (Finite 10000000) (Finite 10000000) 7 10
     = Inr [ranked_at ''A'' (1 / 2)]
   \<and> open_interest_usd (ranked_at ''A'' (1 / 2)) = Finite 10000000
   \<and> fl_ge (open_interest_usd (ranked_at ''A'' (1 / 2))) (Finite 10000000)
   \<and> fl_ge (daily_volume_usd (ranked_at ''A'' (1 / 2))) (Finite 10000000)
   \<and> funding_data_points (ranked_at ''A'' (1 / 2)) = 2"
proof -
  have "ranked_at ''A'' (1 / 2) \<in> set [ranked_at ''A'' (1 / 2)]" by simp
  with ranked_meet_thresholds [of exact_python scenario_one "Finite 10000000" "Finite 10000000"
      7 10 "[ranked_at ''A'' (1 / 2)]" "ranked_at ''A'' (1 / 2)"] scenario_one_result
  show ?thesis
    by (simp add: ranked_at_def)
qed

text \<open>
  Claim C5 as stated fails: an instrument whose open interest is \<open>nan\<close> is not below the
  threshold, so it is returned, and its open interest in USD is NaN, which is not at
  least the threshold either.
\<close>

theorem nan_interest_ranked_counterexample:
  "get_top_default exact_python scenario_nan_interest
     = Inr [(ranked_at ''A'' (1 / 2))\<lparr>open_interest_usd := NaN\<rparr>]
   \<and> \<not> fl_ge (open_interest_usd ((ranked_at ''A'' (1 / 2))\<lparr>open_interest_usd := NaN\<rparr>))
         (Finite 10000000)"
proof -
  let ?c = "(ranked_at ''A'' (1 / 2))\<lparr>open_interest_usd := NaN\<rparr>"
  have w: "meta_status scenario_nan_interest = 200"
    "meta_body scenario_nan_interest = Inr ([[''name'' \<mapsto> JStr ''A'']], [nan_context])"
    "funding_reply scenario_nan_interest = (\<lambda>payload. (200, Inr (two_entries ''0.5'')))"
    by (simp_all add: scenario_nan_interest_def scenario_one_def)
  have f: "py_float exact_python (dict_get nan_context ''openInterest'' (JStr ''0'')) = Inr NaN"
    "py_float exact_python (dict_get nan_context ''markPx'' (JStr ''0'')) = Inr (Finite 100000)"
    "py_float exact_python (dict_get nan_context ''dayNtlVlm'' (JStr ''0''))
       = Inr (Finite 20000000)"
    "py_float exact_python (dict_get nan_context ''funding'' (JStr ''0'')) = Inr (Finite (1 / 8))"
    by (simp_all add: nan_context_def liquid_context_def dict_get_def py_float_def exact_fields
        decimals)
  have n: "two_entries ''0.5'' \<noteq> []" "length (two_entries ''0.5'') = 2"
    by (simp_all add: two_entries_def)
  have r: "funding_rates exact_python (two_entries ''0.5'') = Inr [Finite (1 / 2), Finite (1 / 2)]"
    by (rule two_entries_rates) (simp add: exact_fields decimals)
  have a: "calculate_average_funding_rate exact_python (two_entries ''0.5'') = Inr (Finite (1 / 2))"
    by (simp add: calculate_average_funding_rate_def n r ebind_def py_truediv_def exact_fields)
  have t: "try_body exact_python scenario_nan_interest (Finite 10000000) (Finite 10000000) s e
             (JStr ''A'') nan_context = Inr (Some ?c)" for s e
    unfolding try_body_def Let_def f
    by (simp add: fetch_funding_history_def w ebind_def n r a exact_fields ranked_at_def)
  have m: "fetch_meta_and_contexts scenario_nan_interest
             = Inr ([[''name'' \<mapsto> JStr ''A'']], [nan_context])"
    by (simp add: fetch_meta_and_contexts_def w ebind_def)
  have "get_top_default exact_python scenario_nan_interest = Inr [?c]"
    unfolding get_top_default_def get_top_funding_rate_coins_def m
    by (simp add: ebind_def Let_def loop_body_def subscript_def t sort_reverse_def slice_to_def
        ranked_at_def)
  then show ?thesis by (simp add: fl_ge_iff)
qed

text \<open>
  Claim C6, as amended. For every instrument returned by the ranking,
  \<open>avg_funding_rate\<close> is the float sum of the rates of the entries of its fetched funding
  history divided by their number (each entry with the same weight), and
  \<open>annualized_funding_rate\<close> is the value of \<^verbatim>\<open>avg_funding_rate * 3 * 365\<close>, whatever the
  parameters of the call; the two compare equal with \<^verbatim>\<open>==\<close> unless that value is NaN.
\<close>

theorem ranked_average_and_annualized:
  assumes "get_top_funding_rate_coins py w min_oi min_vol days_back top_n = Inr out"
    and "c \<in> set out"
  shows "annualized_funding_rate c
           = fmul py (fmul py (avg_funding_rate c) (Finite 3)) (Finite 365)
         \<and> (annualized_funding_rate c \<noteq> NaN \<longrightarrow>
              fl_eq (annualized_funding_rate c)
                (fmul py (fmul py (avg_funding_rate c) (Finite 3)) (Finite 365)))
         \<and> (\<exists>h rs. fetch_funding_history w (coin c) (clock_start w days_back)
                      (Some (clock_end w)) = Inr h
                 \<and> funding_rates py h = Inr rs \<and> rs \<noteq> [] \<and> length rs = length h
                 \<and> avg_funding_rate c
                     = fdiv py (fsum py rs) (Finite (of_nat (length rs))))"
proof -
  from get_top_member [OF assms] obtain contexts j nm where
    t: "try_body py w min_oi min_vol (clock_start w days_back) (clock_end w) nm
          (contexts ! j) = Inr (Some c)"
    by blast
  from try_body_Some(1,4,5) [OF t] show ?thesis
    by (auto simp: fl_eq_def dest: funding_rates_length)
qed

theorem ranked_average_and_annualized_witness:
  "get_top_default exact_python scenario_one = Inr [ranked_at ''A'' (1 / 2)]
   \<and> avg_funding_rate (ranked_at ''A'' (1 / 2))
       = exact_div (foldl exact_add (Finite 0) [Finite (1 / 2), Finite (1 / 2)]) (Finite 2)
   \<and> annualized_funding_rate (ranked_at ''A'' (1 / 2)) = Finite (1095 / 2)
   \<and> fl_eq (annualized_funding_rate (ranked_at ''A'' (1 / 2)))
        (exact_mul (exact_mul (avg_funding_rate (ranked_at ''A'' (1 / 2))) (Finite 3))
           (Finite 365))"
proof -
  have "ranked_at ''A'' (1 / 2) \<in> set [ranked_at ''A'' (1 / 2)]" by simp
  from ranked_average_and_annualized [OF scenario_one_result this] scenario_one_result
  show ?thesis
    by (simp add: ranked_at_def get_top_default_def exact_fields fl_eq_def)
qed

lemma nan_try_body:
  assumes "fetch_funding_history w (JStr nm) s (Some e) = Inr (two_entries ''nan'')"
  shows "try_body exact_python w (Finite 10000000) (Finite 10000000) s e (JStr nm) liquid_context
           = Inr (Some (nan_rates (ranked_at nm r)))"
proof -
  have n: "two_entries ''nan'' \<noteq> []" "length (two_entries ''nan'') = 2"
    by (simp_all add: two_entries_def)
  have f: "funding_rates exact_python (two_entries ''nan'') = Inr [NaN, NaN]"
    by (rule two_entries_rates) (simp add: exact_fields decimals)
  have a: "calculate_average_funding_rate exact_python (two_entries ''nan'') = Inr NaN"
    by (simp add: calculate_average_funding_rate_def n f ebind_def py_truediv_def exact_fields)
  show ?thesis
    unfolding try_body_def Let_def liquid_fields assms(1)
    by (simp add: ebind_def n f a exact_fields ranked_at_def nan_rates_def)
qed

text \<open>
  Claim C6 as stated fails: a history whose rates are \<open>nan\<close> gives an average and an
  annualized rate that are NaN, and NaN does not compare equal to anything.
\<close>

theorem nan_rate_not_equal_counterexample:
  "get_top_default exact_python scenario_nan_rate = Inr [nan_rates (ranked_at ''A'' 0)]
   \<and> \<not> fl_eq (annualized_funding_rate (nan_rates (ranked_at ''A'' 0)))
         (exact_mul (exact_mul (avg_funding_rate (nan_rates (ranked_at ''A'' 0))) (Finite 3))
            (Finite 365))"
proof -
  have w: "meta_status scenario_nan_rate = 200"
    "meta_body scenario_nan_rate = Inr ([[''name'' \<mapsto> JStr ''A'']], [liquid_context])"
    "funding_reply scenario_nan_rate = (\<lambda>payload. (200, Inr (two_entries ''nan'')))"
    by (simp_all add: scenario_nan_rate_def scenario_one_def)
  have "fetch_funding_history scenario_nan_rate (JStr ''A'') s (Some e)
          = Inr (two_entries ''nan'')" for s e
    by (simp add: fetch_funding_history_def w)
  from nan_try_body [where r = 0, OF this]
  have b: "loop_body exact_python scenario_nan_rate (Finite 10000000) (Finite 10000000) s e
             [liquid_context] 0 [''name'' \<mapsto> JStr ''A''] = Inr (Some (nan_rates (ranked_at ''A'' 0)))"
    for s e
    by (simp add: loop_body_def subscript_def ebind_def)
  have m: "fetch_meta_and_contexts scenario_nan_rate
             = Inr ([[''name'' \<mapsto> JStr ''A'']], [liquid_context])"
    by (simp add: fetch_meta_and_contexts_def w ebind_def)
  have "get_top_default exact_python scenario_nan_rate = Inr [nan_rates (ranked_at ''A'' 0)]"
    unfolding get_top_default_def get_top_funding_rate_coins_def m
    by (simp add: ebind_def Let_def b sort_reverse_def slice_to_def nan_rates_def exact_fields)
  then show ?thesis by (simp add: fl_eq_def nan_rates_def)
qed

text \<open>
  Claim C4, as amended. With \<open>top_n\<close> not negative, the result of the ranking has at
  most \<open>top_n\<close> elements. When no annualized rate of the instruments the loop built is
  NaN, the result is sorted non-increasing by \<open>annualized_funding_rate\<close>, and it is the
  first \<open>top_n\<close> elements of a list sorted that way that holds the instruments the loop
  built, those of equal annualized rate in the order in which the loop over the universe
  appended them.
\<close>

theorem ranking_sorted_and_bounded:
  assumes "0 \<le> top_n"
    and "get_top_funding_rate_coins py w min_oi min_vol days_back top_n = Inr out"
  shows "length out \<le> nat top_n
         \<and> (\<exists>universe contexts eligible.
               fetch_meta_and_contexts w = Inr (universe, contexts)
             \<and> eligible = List.map_filter
                 (appended (loop_body py w min_oi min_vol (clock_start w days_back)
                    (clock_end w) contexts))
                 (List.enumerate 0 universe)
             \<and> ((\<forall>c \<in> set eligible. annualized_funding_rate c \<noteq> NaN) \<longrightarrow>
                  sorted_wrt (\<lambda>x y. fl_ge (annualized_funding_rate x)
                                       (annualized_funding_rate y)) out
                \<and> (\<exists>sorted_coins.
                      out = take (nat top_n) sorted_coins
                    \<and> mset sorted_coins = mset eligible
                    \<and> sorted_wrt (\<lambda>x y. fl_ge (annualized_funding_rate x)
                                          (annualized_funding_rate y)) sorted_coins
                    \<and> (\<forall>v. filter (\<lambda>x. annualized_funding_rate x = v) sorted_coins
                           = filter (\<lambda>x. annualized_funding_rate x = v) eligible))))"
proof -
  let ?k = annualized_funding_rate
  from assms(2) obtain universe contexts elig where
    f: "fetch_meta_and_contexts w = Inr (universe, contexts)" and
    l: "for_loop (loop_body py w min_oi min_vol (clock_start w days_back) (clock_end w)
          contexts) 0 universe [] = Inr elig" and
    o: "out = slice_to top_n (sort_reverse py ?k elig)"
    unfolding get_top_funding_rate_coins_def Let_def
    by (auto simp: ebind_Inr_iff)
  let ?body = "loop_body py w min_oi min_vol (clock_start w days_back) (clock_end w) contexts"
  from for_loop_Inr [OF l]
  have e: "elig = List.map_filter (appended ?body) (List.enumerate 0 universe)"
    by simp
  from o assms(1) have t: "out = take (nat top_n) (sort_reverse py ?k elig)"
    by (simp add: slice_to_def)
  have len: "length out \<le> nat top_n" using t by simp
  have "sorted_wrt (\<lambda>x y. fl_ge (?k x) (?k y)) out
        \<and> (\<exists>sorted_coins.
              out = take (nat top_n) sorted_coins
            \<and> mset sorted_coins = mset elig
            \<and> sorted_wrt (\<lambda>x y. fl_ge (?k x) (?k y)) sorted_coins
            \<and> (\<forall>v. filter (\<lambda>x. ?k x = v) sorted_coins = filter (\<lambda>x. ?k x = v) elig))"
    if n: "\<forall>c \<in> set elig. ?k c \<noteq> NaN"
  proof -
    have s: "sorted_wrt (\<lambda>x y. fl_ge (?k x) (?k y)) (sort_reverse py ?k elig)"
      using n by (rule sort_reverse_sorted)
    have "sorted_wrt (\<lambda>x y. fl_ge (?k x) (?k y)) out"
      unfolding t using s by (rule sorted_wrt_take)
    moreover have "mset (sort_reverse py ?k elig) = mset elig"
      using n by (rule sort_reverse_mset)
    moreover have "\<forall>v. filter (\<lambda>x. ?k x = v) (sort_reverse py ?k elig)
                      = filter (\<lambda>x. ?k x = v) elig"
      using n by (simp add: sort_reverse_stable)
    ultimately show ?thesis using t s by blast
  qed
  with len f e show ?thesis by blast
qed

lemma scenario_three_fields:
  "meta_status scenario_three = 200"
  "meta_body scenario_three
     = Inr ([[''name'' \<mapsto> JStr ''B''], [''name'' \<mapsto> JStr ''A''], [''name'' \<mapsto> JStr ''C'']],
            replicate 3 liquid_context)"
  "funding_reply scenario_three
     = (\<lambda>payload. (200, Inr (if payload ''coin'' = Some (JStr ''B'') then two_entries ''0.25''
                              else two_entries ''0.5'')))"
  by (simp_all add: scenario_three_def scenario_one_def)

lemma payload_coin: "funding_payload c s e ''coin'' = Some c"
  by (simp add: funding_payload_def Let_def split: option.splits)

lemma scenario_three_body:
  assumes "i < 3"
  shows "loop_body exact_python scenario_three (Finite 10000000) (Finite 10000000) s e
           (replicate 3 liquid_context) i [''name'' \<mapsto> JStr nm]
         = Inr (Some (ranked_at nm (if nm = ''B'' then 1 / 4 else 1 / 2)))"
proof -
  have c: "replicate 3 liquid_context ! i = liquid_context" using assms by simp
  show ?thesis
  proof (cases "nm = ''B''")
    case True
    then have "fetch_funding_history scenario_three (JStr nm) s (Some e)
                 = Inr (two_entries ''0.25'')"
      by (simp add: fetch_funding_history_def scenario_three_fields payload_coin)
    from liquid_try_body [OF this decimals(2)] True assms show ?thesis
      by (simp add: loop_body_def subscript_def ebind_def c)
  next
    case False
    then have "fetch_funding_history scenario_three (JStr nm) s (Some e)
                 = Inr (two_entries ''0.5'')"
      by (simp add: fetch_funding_history_def scenario_three_fields payload_coin)
    from liquid_try_body [OF this decimals(1)] False assms show ?thesis
      by (simp add: loop_body_def subscript_def ebind_def c)
  qed
qed

lemma scenario_three_loop:
  "for_loop (loop_body exact_python scenario_three (Finite 10000000) (Finite 10000000) s e
      (replicate 3 liquid_context)) 0
     [[''name'' \<mapsto> JStr ''B''], [''name'' \<mapsto> JStr ''A''], [''name'' \<mapsto> JStr ''C'']] []
   = Inr [ranked_at ''B'' (1 / 4), ranked_at ''A'' (1 / 2), ranked_at ''C'' (1 / 2)]"
  by (simp add: scenario_three_body)

lemma scenario_three_result:
  "get_top_funding_rate_coins exact_python scenario_three (Finite 10000000) (Finite 10000000) 7 2
     = Inr [ranked_at ''A'' (1 / 2), ranked_at ''C'' (1 / 2)]"
proof -
  have m: "fetch_meta_and_contexts scenario_three
     = Inr ([[''name'' \<mapsto> JStr ''B''], [''name'' \<mapsto> JStr ''A''], [''name'' \<mapsto> JStr ''C'']],
            replicate 3 liquid_context)"
    by (simp add: fetch_meta_and_contexts_def scenario_three_fields ebind_def)
  have s: "sort_reverse exact_python annualized_funding_rate
             [ranked_at ''B'' (1 / 4), ranked_at ''A'' (1 / 2), ranked_at ''C'' (1 / 2)]
           = [ranked_at ''A'' (1 / 2), ranked_at ''C'' (1 / 2), ranked_at ''B'' (1 / 4)]"
    by (simp add: sort_reverse_def ranked_at_key)
  show ?thesis
    unfolding get_top_funding_rate_coins_def m
    by (simp add: ebind_def Let_def scenario_three_loop s slice_to_def del: for_loop.simps)
qed

theorem ranking_sorted_and_bounded_witness:
  "(0 :: int) \<le> 2
   \<and> get_top_funding_rate_coins exact_python scenario_three (Finite 10000000) (Finite 10000000)
       7 2 = Inr [ranked_at ''A'' (1 / 2), ranked_at ''C'' (1 / 2)]
   \<and> List.map_filter
       (appended (loop_body exact_python scenario_three (Finite 10000000) (Finite 10000000)
          (clock_start scenario_three 7) (clock_end scenario_three) (replicate 3 liquid_context)))
       (List.enumerate 0
          [[''name'' \<mapsto> JStr ''B''], [''name'' \<mapsto> JStr ''A''], [''name'' \<mapsto> JStr ''C'']])
     = [ranked_at ''B'' (1 / 4), ranked_at ''A'' (1 / 2), ranked_at ''C'' (1 / 2)]
   \<and> length [ranked_at ''A'' (1 / 2), ranked_at ''C'' (1 / 2)] \<le> nat 2
   \<and> sorted_wrt (\<lambda>x y. fl_ge (annualized_funding_rate x) (annualized_funding_rate y))
       [ranked_at ''A'' (1 / 2), ranked_at ''C'' (1 / 2)]"
proof -
  have h: "(0 :: int) \<le> 2" by simp
  have e: "List.map_filter
       (appended (loop_body exact_python scenario_three (Finite 10000000) (Finite 10000000)
          (clock_start scenario_three 7) (clock_end scenario_three) (replicate 3 liquid_context)))
       (List.enumerate 0
          [[''name'' \<mapsto> JStr ''B''], [''name'' \<mapsto> JStr ''A''], [''name'' \<mapsto> JStr ''C'']])
     = [ranked_at ''B'' (1 / 4), ranked_at ''A'' (1 / 2), ranked_at ''C'' (1 / 2)]"
    using for_loop_Inr [OF scenario_three_loop] by simp
  have m: "fetch_meta_and_contexts scenario_three
     = Inr ([[''name'' \<mapsto> JStr ''B''], [''name'' \<mapsto> JStr ''A''], [''name'' \<mapsto> JStr ''C'']],
            replicate 3 liquid_context)"
    by (simp add: fetch_meta_and_contexts_def scenario_three_fields ebind_def)
  from ranking_sorted_and_bounded [OF h scenario_three_result] m e
  have "sorted_wrt (\<lambda>x y. fl_ge (annualized_funding_rate x) (annualized_funding_rate y))
       [ranked_at ''A'' (1 / 2), ranked_at ''C'' (1 / 2)]"
    by (auto simp: ranked_at_key)
  with h scenario_three_result e show ?thesis by simp
qed

text \<open>
  Claim C4 as stated fails: with the rates of \<open>A\<close> being \<open>nan\<close>, the result holds an
  annualized rate that is NaN before one that is a number, and no order of the two is
  non-increasing, since NaN is not at least, nor at most, any number.
\<close>

theorem nan_rate_unsorted_counterexample:
  "(0 :: int) \<le> 10
   \<and> get_top_funding_rate_coins exact_python scenario_nan_first (Finite 10000000)
       (Finite 10000000) 7 10
     = Inr [nan_rates (ranked_at ''A'' 0), ranked_at ''C'' (1 / 2)]
   \<and> \<not> sorted_wrt (\<lambda>x y. fl_ge (annualized_funding_rate x) (annualized_funding_rate y))
         [nan_rates (ranked_at ''A'' 0), ranked_at ''C'' (1 / 2)]
   \<and> \<not> sorted_wrt (\<lambda>x y. fl_ge (annualized_funding_rate x) (annualized_funding_rate y))
         [ranked_at ''C'' (1 / 2), nan_rates (ranked_at ''A'' 0)]"
proof -
  have w: "meta_status scenario_nan_first = 200"
    "meta_body scenario_nan_first
       = Inr ([[''name'' \<mapsto> JStr ''A''], [''name'' \<mapsto> JStr ''C'']], replicate 2 liquid_context)"
    "funding_reply scenario_nan_first
       = (\<lambda>payload. (200, Inr (if payload ''coin'' = Some (JStr ''A'') then two_entries ''nan''
                                else two_entries ''0.5'')))"
    by (simp_all add: scenario_nan_first_def scenario_one_def)
  have fa: "fetch_funding_history scenario_nan_first (JStr ''A'') s (Some e)
              = Inr (two_entries ''nan'')" for s e
    by (simp add: fetch_funding_history_def w payload_coin)
  have fc: "fetch_funding_history scenario_nan_first (JStr ''C'') s (Some e)
              = Inr (two_entries ''0.5'')" for s e
    by (simp add: fetch_funding_history_def w payload_coin)
  have ba: "loop_body exact_python scenario_nan_first (Finite 10000000) (Finite 10000000) s e
              (replicate 2 liquid_context) 0 [''name'' \<mapsto> JStr ''A'']
            = Inr (Some (nan_rates (ranked_at ''A'' 0)))" for s e
    using nan_try_body [where r = 0, OF fa]
    by (simp add: loop_body_def subscript_def ebind_def)
  have bc: "loop_body exact_python scenario_nan_first (Finite 10000000) (Finite 10000000) s e
              (replicate 2 liquid_context) (Suc 0) [''name'' \<mapsto> JStr ''C'']
            = Inr (Some (ranked_at ''C'' (1 / 2)))" for s e
    using liquid_try_body [OF fc decimals(1)]
    by (simp add: loop_body_def subscript_def ebind_def)
  have m: "fetch_meta_and_contexts scenario_nan_first
       = Inr ([[''name'' \<mapsto> JStr ''A''], [''name'' \<mapsto> JStr ''C'']], replicate 2 liquid_context)"
    by (simp add: fetch_meta_and_contexts_def w ebind_def)
  have k: "annualized_funding_rate (nan_rates (ranked_at ''A'' 0)) = NaN"
    by (simp add: nan_rates_def)
  have s: "sort_reverse exact_python annualized_funding_rate
             [nan_rates (ranked_at ''A'' 0), ranked_at ''C'' (1 / 2)]
           = [nan_rates (ranked_at ''A'' 0), ranked_at ''C'' (1 / 2)]"
    by (simp add: sort_reverse_def k exact_fields upt_rec)
  have "get_top_funding_rate_coins exact_python scenario_nan_first (Finite 10000000)
       (Finite 10000000) 7 10
     = Inr [nan_rates (ranked_at ''A'' 0), ranked_at ''C'' (1 / 2)]"
    unfolding get_top_funding_rate_coins_def m
    by (simp add: ebind_def Let_def ba bc s slice_to_def)
  then show ?thesis
    by (simp add: k fl_ge_iff)
qed

subsection \<open>The pairing of metadata and contexts\<close>









subsection \<open>The error boundary of one instrument\<close>














subsection \<open>Refresh and read\<close>

lemma get_top_fails:
  "meta_status w \<noteq> 200 \<Longrightarrow>
     get_top_funding_rate_coins py w a b d n = Inl (ApiRequestFailed (meta_status w))"
  by (simp add: get_top_funding_rate_coins_def fetch_meta_and_contexts_def ebind_def)

lemma update_raised:
  "get_top_default py w = Inl e \<Longrightarrow> update_hyperliquid_data py w db = (Inr (), db)"
  by (simp add: update_hyperliquid_data_def)

lemma update_fails:
  "meta_status w \<noteq> 200 \<Longrightarrow> update_hyperliquid_data py w db = (Inr (), db)"
  by (simp add: update_hyperliquid_data_def get_top_default_def get_top_fails)

lemma update_never_raises: "fst (update_hyperliquid_data py w db) = Inr ()"
  by (simp add: update_hyperliquid_data_def Let_def split: sum.splits)

lemma update_succeeds:
  "get_top_default py w = Inr cs \<Longrightarrow>
     update_hyperliquid_data py w db
       = (Inr (), [\<lparr>coins = cs, last_updated = clock_update w,
                    next_update = clock_update w + 3600000000\<rparr>])"
  by (simp add: update_hyperliquid_data_def Let_def insert_one_def delete_many_def)

text \<open>
  Claim C8, as amended. When the bulk request is answered with a status other than 200,
  \<^verbatim>\<open>fetch_meta_and_contexts\<close> raises, and so does the ranking call;
  \<^verbatim>\<open>update_hyperliquid_data\<close> catches the exception and returns normally, and the
  collection is as it was: nothing is deleted and nothing is inserted.
\<close>

theorem failed_fetch_leaves_store:
  "meta_status w \<noteq> 200 \<Longrightarrow>
     fetch_meta_and_contexts w = Inl (ApiRequestFailed (meta_status w))
     \<and> get_top_default py w = Inl (ApiRequestFailed (meta_status w))
     \<and> update_hyperliquid_data py w db = (Inr (), db)"
  by (simp add: fetch_meta_and_contexts_def get_top_default_def get_top_fails update_fails)

theorem failed_fetch_leaves_store_witness:
  "meta_status env_500 \<noteq> 200
   \<and> fetch_meta_and_contexts env_500 = Inl (ApiRequestFailed 500)
   \<and> update_hyperliquid_data exact_python env_500 [old_doc] = (Inr (), [old_doc])"
proof -
  have h: "meta_status env_500 \<noteq> 200" "meta_status env_500 = 500"
    by (simp_all add: env_500_def scenario_one_def)
  from failed_fetch_leaves_store [OF h(1), of exact_python "[old_doc]"] h
  show ?thesis by simp
qed

text \<open>
  Claim C8 as stated fails in its first half: with a status of 500 the refresh returns
  normally, it raises nothing.
\<close>

theorem refresh_does_not_raise_counterexample:
  "meta_status env_500 = 500
   \<and> fst (update_hyperliquid_data exact_python env_500 [old_doc]) = Inr ()"
  by (simp add: update_never_raises env_500_def scenario_one_def)

lemma validate_coins_strings:
  "(\<forall>c \<in> set cs. \<exists>s. coin c = JStr s) \<Longrightarrow> \<exists>vs. validate_coins cs = Inr vs"
  by (induction cs) (auto simp: ebind_def validate_coin_def)

lemma validate_coins_raises: "validate_coins cs = Inl e \<Longrightarrow> e = ValidationError"
  by (induction cs)
     (auto simp: ebind_Inl_iff validate_coin_def split: json.splits)

text \<open>
  Claim C1, as amended. When every refresh that a read invokes fails, that is when its
  ranking call raises, whatever the exception, no error of the refresh reaches the read
  and the collection is left as it was. The first refresh is invoked when the read is
  forced or the collection is empty, the second when the snapshot then found is more
  than an hour old. The read raises HTTP 503 when the collection holds no snapshot.
  Otherwise it answers from the snapshot already stored, stale or not: with
  \<open>success = True\<close> and the coins and times of that snapshot when its coins validate
  against the response model, which they do when every coin name is a string, and with
  \<open>success = False\<close> and the validation error when they do not.
\<close>

theorem failed_refresh_serves_store:
  assumes "force_refresh \<or> find_one db = None \<Longrightarrow>
             \<exists>e. get_top_default py (first_refresh rq) = Inl e"
    and "\<And>c. find_one db = Some c \<Longrightarrow> clock_read rq - last_updated c > 3600000000 \<Longrightarrow>
             \<exists>e. get_top_default py (second_refresh rq) = Inl e"
  shows "fst (get_hyperliquid_top_coins py rq db force_refresh) =
           (case find_one db of
              None \<Rightarrow> HTTPException 503
            | Some c \<Rightarrow>
                (case validate_coins (coins c) of
                   Inl e \<Rightarrow> HyperliquidResponse False [] (clock_fail1 rq) (clock_fail2 rq)
                              (Some ValidationError)
                 | Inr cs \<Rightarrow> HyperliquidResponse True cs (last_updated c) (next_update c) None))
         \<and> fst (snd (get_hyperliquid_top_coins py rq db force_refresh)) = db
         \<and> (\<forall>c. find_one db = Some c \<and> (\<forall>r \<in> set (coins c). \<exists>s. coin r = JStr s) \<longrightarrow>
               (\<exists>cs. fst (get_hyperliquid_top_coins py rq db force_refresh)
                        = HyperliquidResponse True cs (last_updated c) (next_update c) None))"
proof -
  have u1: "update_hyperliquid_data py (first_refresh rq) db = (Inr (), db)"
    if "force_refresh \<or> find_one db = None"
    using assms(1) [OF that] update_raised by blast
  have u2: "update_hyperliquid_data py (second_refresh rq) db = (Inr (), db)"
    if "find_one db = Some c" "clock_read rq - last_updated c > 3600000000" for c
    using assms(2) [OF that] update_raised by blast
  have first: "(if force_refresh \<or> find_one db = None
               then (case update_hyperliquid_data py (first_refresh rq) db of
                       (Inl e, db') \<Rightarrow> Inl (e, db')
                     | (Inr u, db') \<Rightarrow> Inr (db', find_one db', 1))
               else Inr (db, find_one db, 0))
             = Inr (db, find_one db, if force_refresh \<or> find_one db = None then 1 else 0)"
    using u1 by auto
  have both: "get_hyperliquid_top_coins py rq db force_refresh =
           (case find_one db of
              None \<Rightarrow> (HTTPException 503, db, 1)
            | Some c \<Rightarrow>
                (case validate_coins (coins c) of
                   Inl e \<Rightarrow> HyperliquidResponse False [] (clock_fail1 rq) (clock_fail2 rq)
                              (Some ValidationError)
                 | Inr cs \<Rightarrow> HyperliquidResponse True cs (last_updated c) (next_update c) None,
                 db,
                 (if force_refresh then 1 else 0)
                   + (if clock_read rq - last_updated c > 3600000000 then 1 else 0)))"
  proof (cases "find_one db")
    case None
    then show ?thesis
      unfolding get_hyperliquid_top_coins_def Let_def first by simp
  next
    case (Some c)
    show ?thesis
    proof (cases "clock_read rq - last_updated c > 3600000000")
      case True
      from u2 [OF Some True] Some True show ?thesis
        unfolding get_hyperliquid_top_coins_def Let_def first
        by (auto simp: failure_def split: sum.splits dest: validate_coins_raises)
    next
      case False
      with Some show ?thesis
        unfolding get_hyperliquid_top_coins_def Let_def first
        by (auto simp: failure_def split: sum.splits dest: validate_coins_raises)
    qed
  qed
  have r: "fst (get_hyperliquid_top_coins py rq db force_refresh) =
           (case find_one db of
              None \<Rightarrow> HTTPException 503
            | Some c \<Rightarrow>
                (case validate_coins (coins c) of
                   Inl e \<Rightarrow> HyperliquidResponse False [] (clock_fail1 rq) (clock_fail2 rq)
                              (Some ValidationError)
                 | Inr cs \<Rightarrow> HyperliquidResponse True cs (last_updated c) (next_update c) None))"
    unfolding both by (simp split: option.splits)
  have s: "fst (snd (get_hyperliquid_top_coins py rq db force_refresh)) = db"
    unfolding both by (simp split: option.splits)
  have "\<exists>cs. fst (get_hyperliquid_top_coins py rq db force_refresh)
                 = HyperliquidResponse True cs (last_updated c) (next_update c) None"
    if "find_one db = Some c" "\<forall>r \<in> set (coins c). \<exists>s. coin r = JStr s" for c
  proof -
    from validate_coins_strings [OF that(2)] obtain vs where
      "validate_coins (coins c) = Inr vs" by blast
    with r that(1) show ?thesis by simp
  qed
  with r s show ?thesis by blast
qed

lemma validate_a: "validate_coins [ranked_at ''A'' (1 / 2)] = Inr [coin_a]"
  by (simp add: validate_coin_def ebind_def ranked_at_def coin_a_def)

lemma old_doc_fields:
  "coins old_doc = [ranked_at ''A'' (1 / 2)]" "last_updated old_doc = 0"
  "next_update old_doc = 3600000000"
  by (simp_all add: old_doc_def)

lemma validate_old_doc: "validate_coins (coins old_doc) = Inr [coin_a]"
  by (simp only: old_doc_fields validate_a)

lemma nameless_raises: "get_top_default exact_python env_nameless = Inl KeyError"
proof -
  have m: "fetch_meta_and_contexts env_nameless = Inr ([Map.empty], [liquid_context])"
    by (simp add: fetch_meta_and_contexts_def env_nameless_def scenario_one_def ebind_def)
  show ?thesis
    unfolding get_top_default_def get_top_funding_rate_coins_def m
    by (simp add: ebind_def Let_def loop_body_def subscript_def)
qed

theorem failed_refresh_serves_store_witness:
  "get_top_default exact_python (first_refresh rq_nameless) = Inl KeyError
   \<and> get_top_default exact_python (second_refresh rq_nameless) = Inl KeyError
   \<and> fst (get_hyperliquid_top_coins exact_python rq_nameless [] False) = HTTPException 503
   \<and> fst (get_hyperliquid_top_coins exact_python rq_nameless [old_doc] True)
       = HyperliquidResponse True [coin_a] 0 3600000000 None
   \<and> fst (snd (get_hyperliquid_top_coins exact_python rq_nameless [old_doc] True)) = [old_doc]"
proof -
  have r: "get_top_default exact_python (first_refresh rq_nameless) = Inl KeyError"
    "get_top_default exact_python (second_refresh rq_nameless) = Inl KeyError"
    by (simp_all add: rq_nameless_def nameless_raises)
  have a: "\<exists>e. get_top_default exact_python (first_refresh rq_nameless) = Inl e"
    "\<exists>e. get_top_default exact_python (second_refresh rq_nameless) = Inl e"
    using r by blast+
  from failed_refresh_serves_store [of False "[]" exact_python rq_nameless, OF a]
    failed_refresh_serves_store [of True "[old_doc]" exact_python rq_nameless, OF a] r
  show ?thesis
    by (simp add: find_one_def old_doc_fields(2,3) validate_old_doc)
qed

lemma env_500_update: "update_hyperliquid_data exact_python env_500 db = (Inr (), db)"
  by (rule update_fails) (simp add: env_500_def scenario_one_def)

lemma rq_fail_stale_fields:
  "first_refresh rq_fail_stale = env_500" "second_refresh rq_fail_stale = env_500"
  "clock_read rq_fail_stale = 3600000001"
  by (simp_all add: rq_fail_stale_def)

text \<open>
  Claim C1 as stated fails: a forced read over a snapshot more than an hour old, with
  the exchange answering 500, answers \<open>success = True\<close> with the old snapshot.
\<close>

theorem stale_snapshot_served_counterexample:
  "meta_status (first_refresh rq_fail_stale) = 500
   \<and> clock_read rq_fail_stale - last_updated old_doc > 3600000000
   \<and> get_hyperliquid_top_coins exact_python rq_fail_stale [old_doc] True
       = (HyperliquidResponse True [coin_a] 0 3600000000 None, [old_doc], 2)"
proof -
  have "get_hyperliquid_top_coins exact_python rq_fail_stale [old_doc] True
       = (HyperliquidResponse True [coin_a] 0 3600000000 None, [old_doc], 2)"
    unfolding get_hyperliquid_top_coins_def Let_def rq_fail_stale_fields env_500_update
    by (simp add: find_one_def old_doc_fields(2,3) validate_old_doc)
  then show ?thesis
    by (simp add: rq_fail_stale_fields env_500_def scenario_one_def old_doc_fields)
qed

text \<open>
  Claim C3 as stated fails in its second half: the same forced read calls the refresh
  twice.
\<close>

theorem forced_read_two_refreshes_counterexample:
  "snd (snd (get_hyperliquid_top_coins exact_python rq_fail_stale [old_doc] True)) = 2"
  unfolding get_hyperliquid_top_coins_def Let_def rq_fail_stale_fields env_500_update
  by (simp add: find_one_def old_doc_fields(2,3) validate_old_doc)

lemma read_fresh_unforced:
  assumes "find_one db = Some c" and "clock_read rq - last_updated c \<le> 3600000000"
  shows "snd (get_hyperliquid_top_coins py rq db False) = (db, 0)"
  using assms unfolding get_hyperliquid_top_coins_def Let_def
  by (simp split: sum.splits)

lemma read_forced_count:
  "snd (snd (get_hyperliquid_top_coins py rq db True))
     = (case find_one (snd (update_hyperliquid_data py (first_refresh rq) db)) of
          None \<Rightarrow> 1
        | Some c \<Rightarrow> if clock_read rq - last_updated c > 3600000000 then 2 else 1)"
proof -
  obtain db1 where u1: "update_hyperliquid_data py (first_refresh rq) db = (Inr (), db1)"
    using update_never_raises [of py "first_refresh rq" db]
    by (cases "update_hyperliquid_data py (first_refresh rq) db") auto
  obtain db2 where u2: "update_hyperliquid_data py (second_refresh rq) db1 = (Inr (), db2)"
    using update_never_raises [of py "second_refresh rq" db1]
    by (cases "update_hyperliquid_data py (second_refresh rq) db1") auto
  show ?thesis
    unfolding get_hyperliquid_top_coins_def Let_def u1
    by (simp add: u2 split: option.splits sum.splits)
qed

text \<open>
  Claim C3, as amended. Two unforced reads within the hour of a stored snapshot call the
  refresh zero times in total and leave the collection as it was. A forced read calls
  the refresh once, and a second time when the snapshot found after the first call is
  more than an hour old at the read's clock; it calls it exactly once when the first
  refresh succeeds and the read's clock is within the hour of it.
\<close>

theorem refresh_counts:
  "(find_one db = Some c \<and> clock_read rq1 - last_updated c \<le> 3600000000
      \<and> clock_read rq2 - last_updated c \<le> 3600000000 \<longrightarrow>
      snd (snd (get_hyperliquid_top_coins py rq1 db False))
        + snd (snd (get_hyperliquid_top_coins py rq2
                      (fst (snd (get_hyperliquid_top_coins py rq1 db False))) False)) = 0
      \<and> fst (snd (get_hyperliquid_top_coins py rq2
                      (fst (snd (get_hyperliquid_top_coins py rq1 db False))) False)) = db)
   \<and> snd (snd (get_hyperliquid_top_coins py rq db True))
       = (case find_one (snd (update_hyperliquid_data py (first_refresh rq) db)) of
            None \<Rightarrow> 1
          | Some c' \<Rightarrow> if clock_read rq - last_updated c' > 3600000000 then 2 else 1)
   \<and> (get_top_default py (first_refresh rq) = Inr cs
        \<and> clock_read rq - clock_update (first_refresh rq) \<le> 3600000000 \<longrightarrow>
        snd (snd (get_hyperliquid_top_coins py rq db True)) = 1)"
proof (intro conjI impI)
  assume a: "find_one db = Some c \<and> clock_read rq1 - last_updated c \<le> 3600000000
      \<and> clock_read rq2 - last_updated c \<le> 3600000000"
  then have b: "snd (get_hyperliquid_top_coins py rq1 db False) = (db, 0)"
    "snd (get_hyperliquid_top_coins py rq2 db False) = (db, 0)"
    by (simp_all add: read_fresh_unforced)
  from b show "snd (snd (get_hyperliquid_top_coins py rq1 db False))
        + snd (snd (get_hyperliquid_top_coins py rq2
                      (fst (snd (get_hyperliquid_top_coins py rq1 db False))) False)) = 0"
    by simp
  from b show "fst (snd (get_hyperliquid_top_coins py rq2
                      (fst (snd (get_hyperliquid_top_coins py rq1 db False))) False)) = db"
    by simp
next
  show "snd (snd (get_hyperliquid_top_coins py rq db True))
       = (case find_one (snd (update_hyperliquid_data py (first_refresh rq) db)) of
            None \<Rightarrow> 1
          | Some c' \<Rightarrow> if clock_read rq - last_updated c' > 3600000000 then 2 else 1)"
    by (rule read_forced_count)
next
  assume "get_top_default py (first_refresh rq) = Inr cs
        \<and> clock_read rq - clock_update (first_refresh rq) \<le> 3600000000"
  then show "snd (snd (get_hyperliquid_top_coins py rq db True)) = 1"
    by (simp add: read_forced_count update_succeeds find_one_def)
qed

lemma scenario_one_default:
  "get_top_default exact_python scenario_one = Inr [ranked_at ''A'' (1 / 2)]"
  by (simp add: get_top_default_def scenario_one_result)

theorem refresh_counts_witness:
  "find_one [new_doc] = Some new_doc
   \<and> clock_read rq_ok - last_updated new_doc \<le> 3600000000
   \<and> snd (snd (get_hyperliquid_top_coins exact_python rq_ok [new_doc] False))
       + snd (snd (get_hyperliquid_top_coins exact_python rq_ok
                (fst (snd (get_hyperliquid_top_coins exact_python rq_ok [new_doc] False)))
                False)) = 0
   \<and> get_top_default exact_python (first_refresh rq_ok) = Inr [ranked_at ''A'' (1 / 2)]
   \<and> clock_read rq_ok - clock_update (first_refresh rq_ok) \<le> 3600000000
   \<and> snd (snd (get_hyperliquid_top_coins exact_python rq_ok [old_doc] True)) = 1"
proof -
  have f: "find_one [new_doc] = Some new_doc" by (simp add: find_one_def)
  have c: "clock_read rq_ok - last_updated new_doc \<le> 3600000000"
    by (simp add: rq_ok_def new_doc_def)
  have g: "get_top_default exact_python (first_refresh rq_ok) = Inr [ranked_at ''A'' (1 / 2)]"
    by (simp add: rq_ok_def scenario_one_default)
  have k: "clock_read rq_ok - clock_update (first_refresh rq_ok) \<le> 3600000000"
    by (simp add: rq_ok_def scenario_one_fields)
  from refresh_counts [of "[new_doc]" new_doc rq_ok rq_ok exact_python rq_ok
      "[ranked_at ''A'' (1 / 2)]"] f c g k
  have one: "snd (snd (get_hyperliquid_top_coins exact_python rq_ok [new_doc] False))
       + snd (snd (get_hyperliquid_top_coins exact_python rq_ok
                (fst (snd (get_hyperliquid_top_coins exact_python rq_ok [new_doc] False)))
                False)) = 0"
    by blast
  from refresh_counts [of "[old_doc]" new_doc rq_ok rq_ok exact_python rq_ok
      "[ranked_at ''A'' (1 / 2)]"] g k
  have two: "snd (snd (get_hyperliquid_top_coins exact_python rq_ok [old_doc] True)) = 1"
    by blast
  from f c g k one two show ?thesis by blast
qed

end
